theory Spec2Isabelle
  imports Main
begin

section \<open>Go values shared by both packages\<close>

text \<open>
  Go's \<open>error\<close> interface values that the two source files create, test or pass on.
  The sentinel errors are package variables compared by identity (\<open>err == ErrProcessNotExited\<close>);
  \<open>ErrNotExist\<close> stands for the path errors on which \<open>os.IsNotExist\<close> answers true,
  \<open>ErrIO\<close> for every other error of the operating system, \<open>ErrSyntax\<close> and \<open>ErrRange\<close>
  for the two kinds of \<open>*strconv.NumError\<close>, \<open>ErrorString\<close> for a value built by
  \<open>fmt.Errorf\<close>, and \<open>Opaque\<close> for an error a runtime backend made up.
\<close>

datatype error =
    ErrContainerExists
  | ErrContainerNotExist
  | ErrUnknownRuntime
  | ErrProcessNotExited
  | ErrNotExist string
  | ErrIO string
  | ErrSyntax string
  | ErrRange string
  | ErrorString string
  | Opaque string

fun IsNotExist :: "error \<Rightarrow> bool" where
  "IsNotExist (ErrNotExist p) = True"
| "IsNotExist e = False"

section \<open>Library functions of \<open>strconv\<close> and \<open>fmt\<close>\<close>

text \<open>
  \<open>strconv.Atoi s\<close> is \<open>ParseInt(s, 10, 0)\<close>; with bit size 0 the result has the size of
  Go's \<open>int\<close>, 64 bits on the platforms the daemon runs on. The scan below follows
  \<open>ParseUint\<close> for base 10: bytes are compared with \<open>'0'\<close> and \<open>'9'\<close>, the accumulator is an
  unsigned 64-bit number (a \<open>nat\<close> with the wrap-around written out), and an overflow
  is reported at the digit where it happens. Both functions return a value together
  with the error, as the Go functions do.
\<close>

definition is_digit :: "char \<Rightarrow> bool" where
  "is_digit d = (48 \<le> (of_char d :: nat) \<and> (of_char d :: nat) \<le> 57)"

definition digit_val :: "char \<Rightarrow> nat" where
  "digit_val d = (of_char d :: nat) - 48"

definition maxUint64 :: nat where
  "maxUint64 = 2 ^ 64 - 1"

datatype num_err = SyntaxErr | RangeErr

fun ParseUint_loop :: "string \<Rightarrow> nat \<Rightarrow> nat \<times> num_err option" where
  "ParseUint_loop [] n = (n, None)"
| "ParseUint_loop (d # ds) n =
     (if \<not> is_digit d then (0, Some SyntaxErr)
      else if n \<ge> maxUint64 div 10 + 1 then (maxUint64, Some RangeErr)
      else
        let n10 = n * 10;
            n1 = (n10 + digit_val d) mod 2 ^ 64
        in if n1 < n10 \<or> n1 > maxUint64 then (maxUint64, Some RangeErr)
           else ParseUint_loop ds n1)"

definition ParseUint :: "string \<Rightarrow> nat \<times> num_err option" where
  "ParseUint s = (if length s < 1 then (0, Some SyntaxErr) else ParseUint_loop s 0)"

text \<open>The conversion \<open>int64(un)\<close> of an unsigned 64-bit number, and negation in 64 bits.\<close>

definition int64 :: "nat \<Rightarrow> int" where
  "int64 u = (if u mod 2 ^ 64 < 2 ^ 63 then int (u mod 2 ^ 64) else int (u mod 2 ^ 64) - 2 ^ 64)"

definition neg64 :: "int \<Rightarrow> int" where
  "neg64 n = (if n = - (2 ^ 63) then n else - n)"

definition ParseInt :: "string \<Rightarrow> int \<times> error option" where
  "ParseInt s0 =
     (if length s0 = 0 then (0, Some (ErrSyntax s0))
      else
        let neg = (hd s0 = CHR ''-'');
            s = (if hd s0 = CHR ''+'' \<or> hd s0 = CHR ''-'' then tl s0 else s0);
            cutoff = (2 :: nat) ^ 63
        in case ParseUint s of
             (un, Some SyntaxErr) \<Rightarrow> (0, Some (ErrSyntax s0))
           | (un, _) \<Rightarrow>
               if \<not> neg \<and> un \<ge> cutoff then (int cutoff - 1, Some (ErrRange s0))
               else if neg \<and> un > cutoff then (- int cutoff, Some (ErrRange s0))
               else (if neg then neg64 (int64 un) else int64 un, None))"

definition Atoi :: "string \<Rightarrow> int \<times> error option" where
  "Atoi s = ParseInt s"

text \<open>
  The verb \<open>%d\<close> of \<open>fmt.Fprintf\<close> prints a Go \<open>int\<close> in decimal: a minus sign for a
  negative number, then the digits with no leading zero.
\<close>

definition digit_char :: "nat \<Rightarrow> char" where
  "digit_char d = char_of (48 + d)"

fun utoa :: "nat \<Rightarrow> string" where
  "utoa n = (if n < 10 then [digit_char n] else utoa (n div 10) @ [digit_char (n mod 10)])"

declare utoa.simps [simp del]

definition itoa :: "int \<Rightarrow> string" where
  "itoa n = (if n < 0 then CHR ''-'' # utoa (nat (- n)) else utoa (nat n))"

section \<open>The operating system as the process supervisor sees it\<close>

text \<open>
  The supervisor works on files and pipes that other processes write, so the model
  carries the operating system as an explicit state. \<open>files\<close> is the file system that
  \<open>ioutil.ReadFile\<close> observes, indexed by the time \<open>now\<close> (in milliseconds), which only
  \<open>time.Sleep\<close> advances: a file written asynchronously appears at some later time.
  \<open>fails\<close> decides which system calls fail and with which error; \<open>open_fds\<close> is the set
  of descriptors that are open, \<open>written\<close> the bytes each descriptor has received, and
  \<open>events\<close> the reads and sleeps performed so far, in order. A write either appends all
  its bytes or fails and appends none; a write or a close through a nil \<open>*os.File\<close> or
  a closed descriptor fails, as the methods of \<open>os.File\<close> do.
\<close>

datatype fstate = Absent | Unreadable string | Contents string

datatype syscall = SysCreate string | SysOpenPipe string | SysWrite nat

datatype io_event = EvRead string | EvSleep nat

record os =
  now :: nat
  files :: "nat \<Rightarrow> string \<Rightarrow> fstate"
  fails :: "syscall \<Rightarrow> error option"
  open_fds :: "nat set"
  next_fd :: nat
  written :: "nat \<Rightarrow> string"
  events :: "io_event list"

text \<open>
  \<open>filepath.Join\<close> of a directory and a file name. The clean-up of the joined path that
  the library also performs is not modelled: paths are only keys of \<open>files\<close> and \<open>fails\<close>.
\<close>

definition Join :: "string \<Rightarrow> string \<Rightarrow> string" where
  "Join dir name = (if dir = [] then name else dir @ ''/'' @ name)"

definition ReadFile :: "string \<Rightarrow> os \<Rightarrow> (error + string) \<times> os" where
  "ReadFile path s =
     (case files s (now s) path of
        Absent \<Rightarrow> Inl (ErrNotExist path)
      | Unreadable msg \<Rightarrow> Inl (ErrIO msg)
      | Contents data \<Rightarrow> Inr data,
      s\<lparr>events := events s @ [EvRead path]\<rparr>)"

definition Sleep :: "nat \<Rightarrow> os \<Rightarrow> os" where
  "Sleep ms s = s\<lparr>now := now s + ms, events := events s @ [EvSleep ms]\<rparr>"

definition open_fd :: "syscall \<Rightarrow> os \<Rightarrow> (error + nat) \<times> os" where
  "open_fd call s =
     (case fails s call of
        Some err \<Rightarrow> (Inl err, s)
      | None \<Rightarrow>
          (Inr (next_fd s),
           s\<lparr>open_fds := insert (next_fd s) (open_fds s), next_fd := Suc (next_fd s)\<rparr>))"

definition os_Create :: "string \<Rightarrow> os \<Rightarrow> (error + nat) \<times> os" where
  "os_Create path s = open_fd (SysCreate path) s"

definition file_Write :: "nat option \<Rightarrow> string \<Rightarrow> os \<Rightarrow> error option \<times> os" where
  "file_Write f bytes s =
     (case f of
        None \<Rightarrow> (Some (ErrIO ''invalid argument''), s)
      | Some fd \<Rightarrow>
          if fd \<notin> open_fds s then (Some (ErrIO ''file already closed''), s)
          else
            (case fails s (SysWrite fd) of
               Some err \<Rightarrow> (Some err, s)
             | None \<Rightarrow> (None, s\<lparr>written := (written s)(fd := written s fd @ bytes)\<rparr>)))"

definition file_Close :: "nat option \<Rightarrow> os \<Rightarrow> error option \<times> os" where
  "file_Close f s =
     (case f of
        None \<Rightarrow> (Some (ErrIO ''invalid argument''), s)
      | Some fd \<Rightarrow>
          if fd \<notin> open_fds s then (Some (ErrIO ''file already closed''), s)
          else (None, s\<lparr>open_fds := open_fds s - {fd}\<rparr>))"

text \<open>
  Modelled from the spec: \<open>getExitPipe\<close> and \<open>getControlPipe\<close> are functions of the
  runtime package that are not under src/. The spec has construction open the exit and the
  control channel and fail if either channel cannot be opened: each either yields a freshly
  opened descriptor or an error, and a failed open leaves nothing open.
\<close>

definition getExitPipe :: "string \<Rightarrow> os \<Rightarrow> (error + nat) \<times> os" where
  "getExitPipe path s = open_fd (SysOpenPipe path) s"

definition getControlPipe :: "string \<Rightarrow> os \<Rightarrow> (error + nat) \<times> os" where
  "getControlPipe path s = open_fd (SysOpenPipe path) s"

text \<open>
  Modelled from the spec: the names of the artifacts are constants of the runtime package
  that are not under src/. The spec lists an exit-notification channel, a control channel
  and an exit-status file as three separate artifacts of the process directory.
\<close>

definition ExitFile :: string where
  "ExitFile = ''exit''"

definition ControlFile :: string where
  "ControlFile = ''control''"

definition ExitStatusFile :: string where
  "ExitStatusFile = ''exitStatus''"

section \<open>runtime/process.go\<close>

text \<open>
  \<open>specs.Process\<close>, \<open>*container\<close> and \<open>*platformSpec\<close> are declared outside src/ and
  only stored or passed on here: they are the type variables \<open>'sp\<close>, \<open>'c\<close> and \<open>'ps\<close>.
  A \<open>*os.File\<close> field is an optional descriptor, \<open>None\<close> for the nil pointer. Fields
  are named as in the source; those of \<open>processConfig\<close> and \<open>ProcessState\<close> carry a
  prefix, since field names are global in a theory.
\<close>

record Stdio =
  Stdin :: string
  Stdout :: string
  Stderr :: string

record ('c, 'sp, 'ps) processConfig =
  cfg_id :: string
  cfg_root :: string
  cfg_processSpec :: 'sp
  cfg_spec :: 'ps
  cfg_c :: 'c
  cfg_stdio :: Stdio
  cfg_exec :: bool
  cfg_checkpoint :: string

record 'sp ProcessState =
  ps_Process :: 'sp
  ps_Exec :: bool
  ps_Checkpoint :: string
  ps_RootUID :: int
  ps_RootGID :: int
  ps_Stdin :: string
  ps_Stdout :: string
  ps_Stderr :: string

record ('c, 'sp) process =
  root :: string
  id' :: string
  pid :: int
  exitPipe :: "nat option"
  controlPipe :: "nat option"
  container :: 'c
  spec :: 'sp
  stdio :: Stdio

text \<open>
  \<open>newProcess\<close>. \<open>getRootIDs\<close> (not under src/) and the JSON encoding of the state record
  are parameters. The deferred \<open>f.Close()\<close> runs on every return after \<open>os.Create\<close>
  succeeded, its result dropped.
\<close>

definition newProcess ::
  "('ps \<Rightarrow> error + int \<times> int) \<Rightarrow> ('sp ProcessState \<Rightarrow> string) \<Rightarrow>
   ('c, 'sp, 'ps) processConfig \<Rightarrow> os \<Rightarrow> (error + ('c, 'sp) process) \<times> os" where
  "newProcess getRootIDs marshal config s =
     (let p = \<lparr>root = cfg_root config, id' = cfg_id config, pid = 0, exitPipe = None,
               controlPipe = None, container = cfg_c config, spec = cfg_processSpec config,
               stdio = cfg_stdio config\<rparr>
      in case getRootIDs (cfg_spec config) of
           Inl err \<Rightarrow> (Inl err, s)
         | Inr (uid, gid) \<Rightarrow>
             (case os_Create (Join (cfg_root config) ''process.json'') s of
                (Inl err, s1) \<Rightarrow> (Inl err, s1)
              | (Inr f, s1) \<Rightarrow>
                  let (res, s') =
                    (case file_Write (Some f)
                            (marshal \<lparr>ps_Process = cfg_processSpec config, ps_Exec = cfg_exec config,
                                      ps_Checkpoint = cfg_checkpoint config, ps_RootUID = uid,
                                      ps_RootGID = gid, ps_Stdin = Stdin (cfg_stdio config),
                                      ps_Stdout = Stdout (cfg_stdio config),
                                      ps_Stderr = Stderr (cfg_stdio config)\<rparr>) s1 of
                       (Some err, s2) \<Rightarrow> (Inl err, s2)
                     | (None, s2) \<Rightarrow>
                         (case getExitPipe (Join (cfg_root config) ExitFile) s2 of
                            (Inl err, s3) \<Rightarrow> (Inl err, s3)
                          | (Inr exit, s3) \<Rightarrow>
                              (case getControlPipe (Join (cfg_root config) ControlFile) s3 of
                                 (Inl err, s4) \<Rightarrow> (Inl err, s4)
                               | (Inr control, s4) \<Rightarrow>
                                   (Inr (p\<lparr>exitPipe := Some exit, controlPipe := Some control\<rparr>),
                                    s4))))
                  in (res, snd (file_Close (Some f) s'))))"

definition CloseStdin :: "('c, 'sp) process \<Rightarrow> os \<Rightarrow> error option \<times> os" where
  "CloseStdin p s =
     file_Write (controlPipe p) (itoa 0 @ '' '' @ itoa 0 @ '' '' @ itoa 0 @ [CHR 0x0A]) s"

definition Resize :: "int \<Rightarrow> int \<Rightarrow> ('c, 'sp) process \<Rightarrow> os \<Rightarrow> error option \<times> os" where
  "Resize w h p s =
     file_Write (controlPipe p) (itoa 1 @ '' '' @ itoa w @ '' '' @ itoa h @ [CHR 0x0A]) s"

definition ExitStatus :: "('c, 'sp) process \<Rightarrow> os \<Rightarrow> (int \<times> error option) \<times> os" where
  "ExitStatus p s =
     (case ReadFile (Join (root p) ExitStatusFile) s of
        (Inl err, s1) \<Rightarrow>
          if IsNotExist err then ((- 1, Some ErrProcessNotExited), s1)
          else ((- 1, Some err), s1)
      | (Inr data, s1) \<Rightarrow>
          if length data = 0 then ((- 1, Some ErrProcessNotExited), s1)
          else (Atoi data, s1))"

definition Close :: "('c, 'sp) process \<Rightarrow> os \<Rightarrow> error option \<times> os" where
  "Close p s = file_Close (exitPipe p) s"

text \<open>
  \<open>getPid\<close>: the loop \<open>for i := 0; i < 20; i++\<close>, with \<open>i\<close> as the argument of the
  recursion. The assignment \<open>p.pid = i\<close> is the updated supervisor that is returned.
\<close>

function getPid_loop ::
  "nat \<Rightarrow> ('c, 'sp) process \<Rightarrow> os \<Rightarrow> (int \<times> error option) \<times> ('c, 'sp) process \<times> os" where
  "getPid_loop i p s =
     (if i < 20 then
        (case ReadFile (Join (root p) ''pid'') s of
           (Inl err, s1) \<Rightarrow>
             if IsNotExist err then getPid_loop (i + 1) p (Sleep 100 s1)
             else ((- 1, Some err), p, s1)
         | (Inr data, s1) \<Rightarrow>
             (case Atoi data of
                (v, Some err) \<Rightarrow> ((- 1, Some err), p, s1)
              | (v, None) \<Rightarrow> ((v, None), p\<lparr>pid := v\<rparr>, s1)))
      else ((- 1, Some (ErrorString ''containerd: cannot read pid file'')), p, s))"
  by pat_completeness auto
termination
  by (relation "measure (\<lambda>(i, p, s). 20 - i)") auto

declare getPid_loop.simps [simp del]

definition getPid ::
  "('c, 'sp) process \<Rightarrow> os \<Rightarrow> (int \<times> error option) \<times> ('c, 'sp) process \<times> os" where
  "getPid p s = getPid_loop 0 p s"

definition loadProcess ::
  "string \<Rightarrow> string \<Rightarrow> 'c \<Rightarrow> 'sp ProcessState \<Rightarrow> os \<Rightarrow> (error + ('c, 'sp) process) \<times> os" where
  "loadProcess root_dir ident c st s =
     (let p = \<lparr>root = root_dir, id' = ident, pid = 0, exitPipe = None, controlPipe = None,
               container = c, spec = ps_Process st,
               stdio = \<lparr>Stdin = ps_Stdin st, Stdout = ps_Stdout st, Stderr = ps_Stderr st\<rparr>\<rparr>
      in case getPid p s of
           ((v, Some err), p1, s1) \<Rightarrow> (Inl err, s1)
         | ((v, None), p1, s1) \<Rightarrow>
             (case ExitStatus p1 s1 of
                ((st, Some err), s2) \<Rightarrow>
                  if err = ErrProcessNotExited then
                    (case getExitPipe (Join root_dir ExitFile) s2 of
                       (Inl err, s3) \<Rightarrow> (Inl err, s3)
                     | (Inr exit, s3) \<Rightarrow> (Inr (p1\<lparr>exitPipe := Some exit\<rparr>), s3))
                  else (Inl err, s2)
              | ((st, None), s2) \<Rightarrow> (Inr p1, s2)))"

section \<open>The execution service (src/unnamed/part_000)\<close>

text \<open>
  \<open>containerd.Status\<close> is an integer type declared outside src/, with the four named
  constants the source switches on; \<open>OtherStatus n\<close> is any other value of the type.
  \<open>containerd.State\<close> is read through its methods \<open>Status()\<close> and \<open>Pid()\<close>.
\<close>

datatype status = CreatedStatus | RunningStatus | StoppedStatus | PausedStatus | OtherStatus int

record cstate =
  st_Status :: status
  st_Pid :: nat

record ContainerInfo =
  info_ID :: string
  info_Runtime :: string

text \<open>
  A \<open>containerd.Container\<close> is an interface value of a backend. Its state query reads,
  and may change, the state \<open>'w\<close> of the world outside the service (the backends and the
  processes they run), so two queries of one container can answer differently.
\<close>

record 'w Container =
  Info :: ContainerInfo
  State :: "'w \<Rightarrow> (error + cstate) \<times> 'w"

record Mount =
  mnt_Type :: string
  mnt_Source :: string
  mnt_Options :: "string list"

record IO =
  io_Stdin :: string
  io_Stdout :: string
  io_Stderr :: string
  io_Terminal :: bool

record CreateOpts =
  opt_Spec :: string
  opt_IO :: IO
  opt_Rootfs :: "Mount list"

record 'w Runtime =
  rt_Create :: "string \<Rightarrow> CreateOpts \<Rightarrow> 'w \<Rightarrow> (error + 'w Container) \<times> 'w"
  rt_Delete :: "'w Container \<Rightarrow> 'w \<Rightarrow> error option \<times> 'w"

text \<open>The request and response messages of the API, with the fields the source reads.\<close>

record CreateRequest =
  rq_ID :: string
  rq_Spec :: string
  rq_Rootfs :: "Mount list"
  rq_Runtime :: string
  rq_Stdin :: string
  rq_Stdout :: string
  rq_Stderr :: string
  rq_Terminal :: bool

record CreateResponse =
  cr_ID :: string
  cr_Pid :: nat

text \<open>
  Modelled from the spec: the enumeration \<open>container.Status\<close> of the API is declared
  outside src/. The spec lists its values as CREATED, RUNNING, STOPPED, PAUSED. CREATED,
  the first, is the value 0, which is also the zero value of a Go variable of the type;
  the other three are numbered on in the order listed.
\<close>

type_synonym api_Status = int

definition Status_CREATED :: api_Status where
  "Status_CREATED = 0"

definition Status_RUNNING :: api_Status where
  "Status_RUNNING = 1"

definition Status_STOPPED :: api_Status where
  "Status_STOPPED = 2"

definition Status_PAUSED :: api_Status where
  "Status_PAUSED = 3"

record api_Container =
  ac_ID :: string
  ac_Pid :: nat
  ac_Status :: api_Status

text \<open>
  What one call into the service does that another party can observe, in order: the
  operations on the mutex \<open>mu\<close>, the reads and writes of the map \<open>containers\<close>, and the
  calls into a backend or a container (with the identifier concerned).
\<close>

datatype event =
    Lock
  | Unlock
  | Lookup string
  | Insert string
  | Remove string
  | CallCreate string
  | CallDelete string
  | CallState string

text \<open>
  The \<open>Service\<close> struct with its two maps. The model adds \<open>world\<close>, the state of the
  backends that their calls read and change, and \<open>trace\<close>, the events so far. The mutex
  itself has no field: one call is followed on its own, and \<open>trace\<close> tells where it
  locks and unlocks.
\<close>

record 'w Service =
  runtimes :: "string \<rightharpoonup> 'w Runtime"
  containers :: "string \<rightharpoonup> 'w Container"
  world :: 'w
  trace :: "event list"

definition emit :: "event \<Rightarrow> 'w Service \<Rightarrow> 'w Service" where
  "emit e s = s\<lparr>trace := trace s @ [e]\<rparr>"

definition call_Create ::
  "'w Runtime \<Rightarrow> string \<Rightarrow> CreateOpts \<Rightarrow> 'w Service \<Rightarrow> (error + 'w Container) \<times> 'w Service" where
  "call_Create runtime ident opts s =
     (case rt_Create runtime ident opts (world s) of
        (res, w) \<Rightarrow> (res, emit (CallCreate ident) (s\<lparr>world := w\<rparr>)))"

definition call_Delete ::
  "'w Runtime \<Rightarrow> 'w Container \<Rightarrow> 'w Service \<Rightarrow> error option \<times> 'w Service" where
  "call_Delete runtime c s =
     (case rt_Delete runtime c (world s) of
        (res, w) \<Rightarrow> (res, emit (CallDelete (info_ID (Info c))) (s\<lparr>world := w\<rparr>)))"

definition call_State :: "'w Container \<Rightarrow> 'w Service \<Rightarrow> (error + cstate) \<times> 'w Service" where
  "call_State c s =
     (case State c (world s) of
        (res, w) \<Rightarrow> (res, emit (CallState (info_ID (Info c))) (s\<lparr>world := w\<rparr>)))"

definition getRuntime :: "string \<Rightarrow> 'w Service \<Rightarrow> error + 'w Runtime" where
  "getRuntime name s =
     (case runtimes s name of
        None \<Rightarrow> Inl ErrUnknownRuntime
      | Some runtime \<Rightarrow> Inr runtime)"

definition getContainer :: "string \<Rightarrow> 'w Service \<Rightarrow> (error + 'w Container) \<times> 'w Service" where
  "getContainer ident s =
     (let s1 = emit Lock s;
          found = containers s1 ident;
          s2 = emit (Lookup ident) s1;
          s3 = emit Unlock s2
      in case found of
           None \<Rightarrow> (Inl ErrContainerNotExist, s3)
         | Some c \<Rightarrow> (Inr c, s3))"

text \<open>
  \<open>Create\<close>. The options it builds from the request before anything else (the composite
  literal and the loop over \<open>r.Rootfs\<close>) are a function of their own.
\<close>

definition Create_opts :: "CreateRequest \<Rightarrow> CreateOpts" where
  "Create_opts r =
     \<lparr>opt_Spec = rq_Spec r,
      opt_IO = \<lparr>io_Stdin = rq_Stdin r, io_Stdout = rq_Stdout r,
                io_Stderr = rq_Stderr r, io_Terminal = rq_Terminal r\<rparr>,
      opt_Rootfs = map (\<lambda>m. \<lparr>mnt_Type = mnt_Type m, mnt_Source = mnt_Source m,
                              mnt_Options = mnt_Options m\<rparr>) (rq_Rootfs r)\<rparr>"

definition Create :: "CreateRequest \<Rightarrow> 'w Service \<Rightarrow> (error + CreateResponse) \<times> 'w Service" where
  "Create r s =
     (let opts = Create_opts r
      in case getRuntime (rq_Runtime r) s of
           Inl err \<Rightarrow> (Inl err, s)
         | Inr runtime \<Rightarrow>
             let s1 = emit (Lookup (rq_ID r)) (emit Lock s)
             in (case containers s1 (rq_ID r) of
                   Some c0 \<Rightarrow> (Inl ErrContainerExists, emit Unlock s1)
                 | None \<Rightarrow>
                     (case call_Create runtime (rq_ID r) opts s1 of
                        (Inl err, s2) \<Rightarrow> (Inl err, emit Unlock s2)
                      | (Inr c, s2) \<Rightarrow>
                          let s3 = emit (Insert (rq_ID r))
                                     (s2\<lparr>containers := (containers s2)(rq_ID r \<mapsto> c)\<rparr>);
                              s4 = emit Unlock s3
                          in (case call_State c s4 of
                                (Inl err, s5) \<Rightarrow>
                                  let s6 = emit Lock s5;
                                      s7 = emit (Remove (rq_ID r))
                                             (s6\<lparr>containers := (containers s6)(rq_ID r := None)\<rparr>);
                                      s8 = snd (call_Delete runtime c s7)
                                  in (Inl err, emit Unlock s8)
                              | (Inr state, s5) \<Rightarrow>
                                  (Inr \<lparr>cr_ID = rq_ID r, cr_Pid = st_Pid state\<rparr>, s5)))))"

definition Delete :: "string \<Rightarrow> 'w Service \<Rightarrow> (error + unit) \<times> 'w Service" where
  "Delete ident s =
     (case getContainer ident s of
        (Inl err, s1) \<Rightarrow> (Inl err, s1)
      | (Inr c, s1) \<Rightarrow>
          (case getRuntime (info_Runtime (Info c)) s1 of
             Inl err \<Rightarrow> (Inl err, s1)
           | Inr runtime \<Rightarrow>
               (case call_Delete runtime c s1 of
                  (Some err, s2) \<Rightarrow> (Inl err, s2)
                | (None, s2) \<Rightarrow> (Inr (), s2))))"

text \<open>
  \<open>List\<close>. The body of the loop over the map: the state query, the switch with no
  default branch (the variable \<open>status\<close> keeps its zero value when no case matches), and
  the append to the response.
\<close>

fun List_loop ::
  "'w Container list \<Rightarrow> api_Container list \<Rightarrow> 'w Service \<Rightarrow>
   (error + api_Container list) \<times> 'w Service" where
  "List_loop [] resp s = (Inr resp, s)"
| "List_loop (c # cs) resp s =
     (case call_State c s of
        (Inl err, s1) \<Rightarrow> (Inl err, s1)
      | (Inr state, s1) \<Rightarrow>
          let status0 = (0 :: api_Status);
              status =
                (case st_Status state of
                   CreatedStatus \<Rightarrow> Status_CREATED
                 | RunningStatus \<Rightarrow> Status_RUNNING
                 | StoppedStatus \<Rightarrow> Status_STOPPED
                 | PausedStatus \<Rightarrow> Status_PAUSED
                 | OtherStatus n \<Rightarrow> status0)
          in List_loop cs
               (resp @ [\<lparr>ac_ID = info_ID (Info c), ac_Pid = st_Pid state, ac_Status = status\<rparr>])
               s1)"

text \<open>
  Go leaves the order in which \<open>range\<close> visits a map unspecified: \<open>keys\<close> is the order
  of one run, a list of the keys of \<open>containers\<close> without repetition. The deferred
  \<open>Unlock\<close> runs on both returns.
\<close>

definition List :: "string list \<Rightarrow> 'w Service \<Rightarrow> (error + api_Container list) \<times> 'w Service" where
  "List keys s =
     (let s1 = emit Lock s;
          (res, s2) = List_loop (List.map_filter (containers s1) keys) [] s1
      in (res, emit Unlock s2))"

section \<open>Notions the properties are stated with\<close>

text \<open>
  The events of a trace that happen while the mutex is held, and whether the mutex is held
  after a trace; the first argument says whether it is held at the start.
\<close>

fun under_lock :: "bool \<Rightarrow> event list \<Rightarrow> event list" where
  "under_lock held [] = []"
| "under_lock held (Lock # es) = under_lock True es"
| "under_lock held (Unlock # es) = under_lock False es"
| "under_lock held (e # es) = (if held then e # under_lock held es else under_lock held es)"

fun held_after :: "bool \<Rightarrow> event list \<Rightarrow> bool" where
  "held_after held [] = held"
| "held_after held (Lock # es) = held_after True es"
| "held_after held (Unlock # es) = held_after False es"
| "held_after held (e # es) = held_after held es"

fun backend_call :: "event \<Rightarrow> bool" where
  "backend_call (CallCreate i) = True"
| "backend_call (CallDelete i) = True"
| "backend_call (CallState i) = True"
| "backend_call e = False"

text \<open>
  The answers that the state queries of the containers \<open>cs\<close> give when they are made in
  this order starting in the world \<open>w\<close>, up to and including the first failure.
\<close>

fun answers :: "'w Container list \<Rightarrow> 'w \<Rightarrow> (error + cstate) list" where
  "answers [] w = []"
| "answers (c # cs) w =
     (case State c w of
        (Inl err, w1) \<Rightarrow> [Inl err]
      | (Inr st, w1) \<Rightarrow> Inr st # answers cs w1)"

text \<open>The listing entry \<open>e\<close> reports the container \<open>c\<close> whose state query answered \<open>st\<close>.\<close>

definition reports :: "'w Container \<Rightarrow> cstate \<Rightarrow> api_Container \<Rightarrow> bool" where
  "reports c st e =
     (ac_ID e = info_ID (Info c) \<and> ac_Pid e = st_Pid st \<and>
      ac_Status e =
        (if st_Status st = RunningStatus then Status_RUNNING
         else if st_Status st = StoppedStatus then Status_STOPPED
         else if st_Status st = PausedStatus then Status_PAUSED
         else Status_CREATED))"

text \<open>
  A string is a decimal numeral when it is an optional sign followed by one or more
  decimal digits.
\<close>

definition is_decimal :: "string \<Rightarrow> bool" where
  "is_decimal s =
     (let body = (if s \<noteq> [] \<and> (hd s = CHR ''+'' \<or> hd s = CHR ''-'') then tl s else s)
      in body \<noteq> [] \<and> list_all is_digit body)"

section \<open>Concrete scenarios\<close>

text \<open>
  A small backend: the world records what the state query of each container answers.
  Creating a container makes its query answer \<open>created\<close>; deleting one returns \<open>result\<close>
  and makes its query answer \<open>deleted\<close>.
\<close>

type_synonym fake_world = "string \<Rightarrow> error + cstate"

definition fake_container :: "string \<Rightarrow> string \<Rightarrow> fake_world Container" where
  "fake_container ident name =
     \<lparr>Info = \<lparr>info_ID = ident, info_Runtime = name\<rparr>, State = (\<lambda>w. (w ident, w))\<rparr>"

definition fake_runtime ::
  "string \<Rightarrow> error + cstate \<Rightarrow> error option \<Rightarrow> error + cstate \<Rightarrow> fake_world Runtime" where
  "fake_runtime name created result deleted =
     \<lparr>rt_Create = (\<lambda>ident opts w. (Inr (fake_container ident name), w(ident := created))),
      rt_Delete = (\<lambda>c w. (result, w(info_ID (Info c) := deleted)))\<rparr>"

definition fake_service :: "fake_world Runtime \<Rightarrow> fake_world Service" where
  "fake_service runtime =
     \<lparr>runtimes = [''runc'' \<mapsto> runtime], containers = Map.empty,
      world = (\<lambda>ident. Inl (Opaque ''no such container'')), trace = []\<rparr>"

definition request :: "string \<Rightarrow> CreateRequest" where
  "request ident =
     \<lparr>rq_ID = ident, rq_Spec = ''{}'', rq_Rootfs = [], rq_Runtime = ''runc'',
      rq_Stdin = [], rq_Stdout = [], rq_Stderr = [], rq_Terminal = False\<rparr>"

definition created_1234 :: "error + cstate" where
  "created_1234 = Inr \<lparr>st_Status = CreatedStatus, st_Pid = 1234\<rparr>"

definition stopped_1234 :: "error + cstate" where
  "stopped_1234 = Inr \<lparr>st_Status = StoppedStatus, st_Pid = 1234\<rparr>"

text \<open>
  An operating system with nothing open; \<open>fs\<close> is the file system over time and \<open>bad\<close>
  the system calls that fail. A supervisor of the directory \<open>/run/p\<close>.
\<close>

definition fake_os :: "(nat \<Rightarrow> string \<Rightarrow> fstate) \<Rightarrow> (syscall \<Rightarrow> error option) \<Rightarrow> os" where
  "fake_os fs bad =
     \<lparr>now = 0, files = fs, fails = bad, open_fds = {}, next_fd = 3,
      written = (\<lambda>fd. []), events = []\<rparr>"

definition fake_process :: "nat option \<Rightarrow> nat option \<Rightarrow> (unit, unit) process" where
  "fake_process exit control =
     \<lparr>root = ''/run/p'', id' = ''init'', pid = 0, exitPipe = exit, controlPipe = control,
      container = (), spec = (), stdio = \<lparr>Stdin = [], Stdout = [], Stderr = []\<rparr>\<rparr>"

definition fake_config :: "(unit, unit, unit) processConfig" where
  "fake_config =
     \<lparr>cfg_id = ''init'', cfg_root = ''/run/p'', cfg_processSpec = (), cfg_spec = (),
      cfg_c = (), cfg_stdio = \<lparr>Stdin = [], Stdout = [], Stderr = []\<rparr>,
      cfg_exec = False, cfg_checkpoint = []\<rparr>"

definition fake_state :: "unit ProcessState" where
  "fake_state =
     \<lparr>ps_Process = (), ps_Exec = False, ps_Checkpoint = [], ps_RootUID = 0, ps_RootGID = 0,
      ps_Stdin = [], ps_Stdout = [], ps_Stderr = []\<rparr>"


text \<open>
  A service of the small backend with the containers \<open>c1\<close> and \<open>c2\<close> registered, in a
  world \<open>w\<close>.
\<close>

definition listed_service :: "fake_world \<Rightarrow> fake_world Service" where
  "listed_service w =
     \<lparr>runtimes = [''runc'' \<mapsto> fake_runtime ''runc'' created_1234 None stopped_1234],
      containers = [''c1'' \<mapsto> fake_container ''c1'' ''runc'',
                    ''c2'' \<mapsto> fake_container ''c2'' ''runc''],
      world = w, trace = []\<rparr>"

definition odd_world :: fake_world where
  "odd_world ident =
     (if ident = ''c1'' then Inr \<lparr>st_Status = OtherStatus 7, st_Pid = 41\<rparr>
      else Inr \<lparr>st_Status = RunningStatus, st_Pid = 42\<rparr>)"

definition broken_world :: fake_world where
  "broken_world ident =
     (if ident = ''c1'' then Inr \<lparr>st_Status = RunningStatus, st_Pid = 41\<rparr>
      else Inl (Opaque ''state unavailable''))"


text \<open>
  File systems over time for the directory \<open>/run/p\<close>: the pid file is written 300 ms
  after the start; nothing is ever written; the process runs with pid 1234; it has exited
  with status 137; its exit-status file holds no number; its pid file cannot be read.
\<close>

definition pid_after_300 :: "nat \<Rightarrow> string \<Rightarrow> fstate" where
  "pid_after_300 t path =
     (if path = ''/run/p/pid'' \<and> 300 \<le> t then Contents ''1234'' else Absent)"

definition no_files :: "nat \<Rightarrow> string \<Rightarrow> fstate" where
  "no_files t path = Absent"

definition running_1234 :: "nat \<Rightarrow> string \<Rightarrow> fstate" where
  "running_1234 t path = (if path = ''/run/p/pid'' then Contents ''1234'' else Absent)"

definition exited_137 :: "nat \<Rightarrow> string \<Rightarrow> fstate" where
  "exited_137 t path =
     (if path = ''/run/p/pid'' then Contents ''1234''
      else if path = ''/run/p/exitStatus'' then Contents ''137''
      else Absent)"

definition garbled_status :: "nat \<Rightarrow> string \<Rightarrow> fstate" where
  "garbled_status t path =
     (if path = ''/run/p/pid'' then Contents ''1234''
      else if path = ''/run/p/exitStatus'' then Contents ''abc''
      else Absent)"

definition unreadable_pid :: "nat \<Rightarrow> string \<Rightarrow> fstate" where
  "unreadable_pid t path =
     (if path = ''/run/p/pid'' then Unreadable ''permission denied'' else Absent)"

text \<open>Every system call succeeds; or opening the pipe at \<open>path\<close> fails.\<close>

definition all_ok :: "syscall \<Rightarrow> error option" where
  "all_ok call = None"

definition no_pipe :: "string \<Rightarrow> syscall \<Rightarrow> error option" where
  "no_pipe path call =
     (if call = SysOpenPipe path then Some (ErrIO ''too many open files'') else None)"

section \<open>Facts about \<open>Atoi\<close> and the decimal rendering\<close>

lemma digit_char_table:
  "digit_char 0 = CHR ''0''" "digit_char 1 = CHR ''1''" "digit_char 2 = CHR ''2''"
  "digit_char 3 = CHR ''3''" "digit_char 4 = CHR ''4''" "digit_char 5 = CHR ''5''"
  "digit_char 6 = CHR ''6''" "digit_char 7 = CHR ''7''" "digit_char 8 = CHR ''8''"
  "digit_char 9 = CHR ''9''" "digit_char (Suc 0) = CHR ''1''"
  by code_simp+

lemma utoa_small: "n < 10 \<Longrightarrow> utoa n = [digit_char n]"
  by (subst utoa.simps) simp

lemma utoa_big: "10 \<le> n \<Longrightarrow> utoa n = utoa (n div 10) @ [digit_char (n mod 10)]"
  by (subst utoa.simps) simp



lemma is_digit_digit_char: "d < 10 \<Longrightarrow> is_digit (digit_char d)"
  by (simp add: is_digit_def digit_char_def)

lemma digit_val_digit_char: "d < 10 \<Longrightarrow> digit_val (digit_char d) = d"
  by (simp add: digit_val_def digit_char_def)

lemma utoa_digits: "list_all is_digit (utoa n)"
  by (induction n rule: utoa.induct) (subst utoa.simps, simp add: is_digit_digit_char)

lemma utoa_nonempty: "utoa n \<noteq> []"
  by (subst utoa.simps) simp

lemma ParseUint_loop_snoc:
  "ParseUint_loop (xs @ [c]) n =
     (case ParseUint_loop xs n of (m, None) \<Rightarrow> ParseUint_loop [c] m | (m, Some e) \<Rightarrow> (m, Some e))"
  by (induction xs arbitrary: n) (auto simp: Let_def)

lemma ParseUint_loop_digit:
  assumes "d < 10" "n * 10 + d < 2 ^ 64"
  shows "ParseUint_loop [digit_char d] n = (n * 10 + d, None)"
proof -
  have "n < maxUint64 div 10 + 1" using assms by (simp add: maxUint64_def)
  moreover have "(n * 10 + d) mod 2 ^ 64 = n * 10 + d" using assms by simp
  moreover have "n * 10 + d \<le> maxUint64" using assms by (simp add: maxUint64_def)
  ultimately show ?thesis
    using assms by (simp add: is_digit_digit_char digit_val_digit_char Let_def)
qed

lemma ParseUint_loop_utoa: "m < 2 ^ 64 \<Longrightarrow> ParseUint_loop (utoa m) 0 = (m, None)"
proof (induction m rule: utoa.induct)
  case (1 n)
  show ?case
  proof (cases "n < 10")
    case True
    then have "utoa n = [digit_char n]" by (subst utoa.simps) simp
    with True "1.prems" ParseUint_loop_digit[of n 0] show ?thesis by simp
  next
    case False
    then have u: "utoa n = utoa (n div 10) @ [digit_char (n mod 10)]" by (subst utoa.simps) simp
    have "n div 10 < 2 ^ 64" using "1.prems" by simp
    with "1.IH" False have ih: "ParseUint_loop (utoa (n div 10)) 0 = (n div 10, None)" by simp
    have "ParseUint_loop [digit_char (n mod 10)] (n div 10) = (n div 10 * 10 + n mod 10, None)"
      by (rule ParseUint_loop_digit) (use "1.prems" in simp_all)
    then show ?thesis by (simp add: u ParseUint_loop_snoc ih)
  qed
qed

lemma is_digit_not_sign: "is_digit c \<Longrightarrow> c \<noteq> CHR ''+'' \<and> c \<noteq> CHR ''-''"
  by (auto simp: is_digit_def)

lemma hd_utoa_not_sign: "hd (utoa m) \<noteq> CHR ''+'' \<and> hd (utoa m) \<noteq> CHR ''-''"
proof -
  have "is_digit (hd (utoa m))"
    using utoa_digits[of m] utoa_nonempty[of m]
    by (cases "utoa m") simp_all
  then show ?thesis by (rule is_digit_not_sign)
qed

lemma ParseUint_utoa:
  assumes "m < 2 ^ 64"
  shows "ParseUint (utoa m) = (m, None)"
proof -
  have "\<not> length (utoa m) < 1" using utoa_nonempty[of m] by (cases "utoa m") simp_all
  then show ?thesis
    unfolding ParseUint_def using ParseUint_loop_utoa[OF assms] by simp
qed

lemma Atoi_itoa:
  assumes lo: "- (2 ^ 63) \<le> n" and hi: "n < 2 ^ 63"
  shows "Atoi (itoa n) = (n, None)"
proof (cases "n < 0")
  case False
  define m where "m = nat n"
  have m: "m < 2 ^ 63" "int m = n" using False hi by (simp_all add: m_def)
  have m64: "m < 2 ^ 64" using m(1) by simp
  have s: "itoa n = utoa m" using False by (simp add: itoa_def m_def)
  have i: "int64 m = n" using m by (simp add: int64_def)
  show ?thesis
    using hd_utoa_not_sign[of m] utoa_nonempty[of m] m(1) i
    by (simp add: s Atoi_def ParseInt_def ParseUint_utoa[OF m64] Let_def)
next
  case True
  define m where "m = nat (- n)"
  have m: "m \<le> 2 ^ 63" "int m = - n" "0 < m" using True lo by (simp_all add: m_def)
  have m64: "m < 2 ^ 64" using m(1) by simp
  have s: "itoa n = CHR ''-'' # utoa m" using True by (simp add: itoa_def m_def)
  have i: "neg64 (int64 m) = n"
  proof (cases "m = 2 ^ 63")
    case True
    then have "n = - (2 ^ 63)" using m(2) by simp
    with True show ?thesis by (simp add: int64_def neg64_def)
  next
    case False
    with m(1) have "m < 2 ^ 63" by simp
    then have "int64 m = int m" by (simp add: int64_def)
    with m(2,3) show ?thesis by (simp add: neg64_def)
  qed
  show ?thesis
    using m(1) i
    by (simp add: s Atoi_def ParseInt_def ParseUint_utoa[OF m64] Let_def)
qed

lemma ParseUint_loop_error:
  "ParseUint_loop ds n = (u, Some e) \<Longrightarrow>
     (e = SyntaxErr \<and> u = 0) \<or> (e = RangeErr \<and> u = maxUint64)"
  by (induction ds arbitrary: n) (auto simp: Let_def split: if_splits)

lemma ParseUint_loop_nondigit:
  "\<not> list_all is_digit ds \<Longrightarrow> snd (ParseUint_loop ds n) \<noteq> None"
  by (induction ds arbitrary: n) (auto simp: Let_def)

lemma ParseUint_error:
  "ParseUint ds = (u, Some e) \<Longrightarrow>
     (e = SyntaxErr \<and> u = 0) \<or> (e = RangeErr \<and> u = maxUint64)"
  using ParseUint_loop_error[of ds 0 u e]
  by (auto simp: ParseUint_def split: if_splits)

lemma ParseUint_bad:
  "ds = [] \<or> \<not> list_all is_digit ds \<Longrightarrow> snd (ParseUint ds) \<noteq> None"
  using ParseUint_loop_nondigit[of ds 0]
  by (auto simp: ParseUint_def)

lemma Atoi_errors:
  "snd (Atoi s) = None \<or> snd (Atoi s) = Some (ErrSyntax s) \<or> snd (Atoi s) = Some (ErrRange s)"
  by (auto simp: Atoi_def ParseInt_def Let_def split: prod.splits option.splits num_err.splits)

lemma Atoi_not_decimal:
  assumes "\<not> is_decimal s"
  shows "snd (Atoi s) \<noteq> None"
proof (cases "s = []")
  case True
  then show ?thesis by (simp add: Atoi_def ParseInt_def)
next
  case False
  define body where "body = (if hd s = CHR ''+'' \<or> hd s = CHR ''-'' then tl s else s)"
  from assms False have bad: "body = [] \<or> \<not> list_all is_digit body"
    by (auto simp: is_decimal_def body_def Let_def)
  obtain u e where pu: "ParseUint body = (u, Some e)"
    using ParseUint_bad[OF bad] by (cases "ParseUint body") auto
  from ParseUint_error[OF pu] show ?thesis
  proof
    assume "e = SyntaxErr \<and> u = 0"
    with pu False show ?thesis
      by (simp add: Atoi_def ParseInt_def Let_def body_def)
  next
    assume "e = RangeErr \<and> u = maxUint64"
    with pu False show ?thesis
      by (simp add: Atoi_def ParseInt_def Let_def body_def maxUint64_def)
  qed
qed

section \<open>Facts about the process supervisor\<close>

lemma itoa_nonempty: "itoa n \<noteq> []"
  by (simp add: itoa_def utoa_nonempty)

lemma itoa_0: "itoa 0 = ''0''"
  by (simp add: itoa_def utoa_small digit_char_table)

lemma itoa_1: "itoa 1 = ''1''"
  by (simp add: itoa_def utoa_small digit_char_table)

lemma Atoi_1234: "Atoi ''1234'' = (1234, None)"
  by (simp add: Atoi_def ParseInt_def ParseUint_def is_digit_def digit_val_def maxUint64_def
      int64_def neg64_def Let_def)

lemma Atoi_137: "Atoi ''137'' = (137, None)"
  by (simp add: Atoi_def ParseInt_def ParseUint_def is_digit_def digit_val_def maxUint64_def
      int64_def neg64_def Let_def)

lemma Atoi_abc: "Atoi ''abc'' = (0, Some (ErrSyntax ''abc''))"
  by (simp add: Atoi_def ParseInt_def ParseUint_def is_digit_def digit_val_def maxUint64_def
      int64_def neg64_def Let_def)

lemma ReadFile_eq:
  "ReadFile path s =
     (case files s (now s) path of
        Absent \<Rightarrow> Inl (ErrNotExist path)
      | Unreadable msg \<Rightarrow> Inl (ErrIO msg)
      | Contents d \<Rightarrow> Inr d, s\<lparr>events := events s @ [EvRead path]\<rparr>)"
  by (simp add: ReadFile_def)

lemma ExitStatus_fst:
  "fst (ExitStatus p s) =
     (case files s (now s) (Join (root p) ExitStatusFile) of
        Absent \<Rightarrow> (- 1, Some ErrProcessNotExited)
      | Unreadable msg \<Rightarrow> (- 1, Some (ErrIO msg))
      | Contents d \<Rightarrow> if d = [] then (- 1, Some ErrProcessNotExited) else Atoi d)"
  by (simp add: ExitStatus_def ReadFile_def split: fstate.splits)

lemma ExitStatus_frame:
  "snd (ExitStatus p s) = s\<lparr>events := events s @ [EvRead (Join (root p) ExitStatusFile)]\<rparr>"
  by (simp add: ExitStatus_def ReadFile_def split: fstate.splits)

lemma getPid_loop_spec:
  assumes "getPid_loop i p s = (res, p', s')" and "i \<le> 20" and "path = Join (root p) ''pid''"
  shows "\<exists>k. i + k \<le> 20 \<and>
     s' = s\<lparr>now := now s + 100 * k,
            events := events s @ concat (replicate k [EvRead path, EvSleep 100]) @
                      (if i + k < 20 then [EvRead path] else [])\<rparr> \<and>
     (\<forall>j < k. files s (now s + 100 * j) path = Absent) \<and>
     (i + k = 20 \<longrightarrow> res = (- 1, Some (ErrorString ''containerd: cannot read pid file'')) \<and> p' = p) \<and>
     (i + k < 20 \<longrightarrow>
        (case files s (now s + 100 * k) path of
           Absent \<Rightarrow> False
         | Unreadable msg \<Rightarrow> res = (- 1, Some (ErrIO msg)) \<and> p' = p
         | Contents d \<Rightarrow>
             (case Atoi d of
                (v, Some err) \<Rightarrow> res = (- 1, Some err) \<and> p' = p
              | (v, None) \<Rightarrow> res = (v, None) \<and> p' = p\<lparr>pid := v\<rparr>)))"
  using assms
proof (induction i p s arbitrary: res p' s' rule: getPid_loop.induct)
  case (1 i p s)
  show ?case
  proof (cases "i < 20")
    case False
    with "1.prems" have "i = 20" by simp
    with "1.prems"(1) show ?thesis
      by (intro exI[of _ 0]) (simp add: getPid_loop.simps)
  next
    case True
    show ?thesis
    proof (cases "files s (now s) path")
      case (Unreadable msg)
      with True "1.prems" show ?thesis
        by (intro exI[of _ 0]) (auto simp: getPid_loop.simps ReadFile_eq)
    next
      case (Contents d)
      with True "1.prems" show ?thesis
        by (intro exI[of _ 0]) (auto simp: getPid_loop.simps ReadFile_eq split: prod.splits option.splits)
    next
      case Absent
      define s1 where "s1 = s\<lparr>events := events s @ [EvRead path]\<rparr>"
      have rf: "ReadFile (Join (root p) ''pid'') s = (Inl (ErrNotExist path), s1)"
        using Absent "1.prems"(3) by (simp add: ReadFile_eq s1_def)
      have rec: "getPid_loop (i + 1) p (Sleep 100 s1) = (res, p', s')"
        using "1.prems"(1) True rf by (subst (asm) getPid_loop.simps) simp
      have "i + 1 \<le> 20" using True by simp
      from "1.IH"[OF True rf[symmetric] refl _ rec this "1.prems"(3)]
      obtain k where k: "i + 1 + k \<le> 20"
        and s': "s' = (Sleep 100 s1)\<lparr>now := now (Sleep 100 s1) + 100 * k,
            events := events (Sleep 100 s1) @ concat (replicate k [EvRead path, EvSleep 100]) @
                      (if i + 1 + k < 20 then [EvRead path] else [])\<rparr>"
        and ab: "\<forall>j < k. files (Sleep 100 s1) (now (Sleep 100 s1) + 100 * j) path = Absent"
        and to: "i + 1 + k = 20 \<longrightarrow> res = (- 1, Some (ErrorString ''containerd: cannot read pid file'')) \<and> p' = p"
        and fin: "i + 1 + k < 20 \<longrightarrow>
        (case files (Sleep 100 s1) (now (Sleep 100 s1) + 100 * k) path of
           Absent \<Rightarrow> False
         | Unreadable msg \<Rightarrow> res = (- 1, Some (ErrIO msg)) \<and> p' = p
         | Contents d \<Rightarrow>
             (case Atoi d of
                (v, Some err) \<Rightarrow> res = (- 1, Some err) \<and> p' = p
              | (v, None) \<Rightarrow> res = (v, None) \<and> p' = p\<lparr>pid := v\<rparr>))"
        by auto
      have fs: "files (Sleep 100 s1) = files s" "now (Sleep 100 s1) = now s + 100"
        "events (Sleep 100 s1) = events s @ [EvRead path, EvSleep 100]"
        by (simp_all add: Sleep_def s1_def)
      have t: "now s + 100 + 100 * j = now s + 100 * Suc j" for j by simp
      have ab': "\<forall>j < Suc k. files s (now s + 100 * j) path = Absent"
      proof (intro allI impI)
        fix j assume "j < Suc k"
        show "files s (now s + 100 * j) path = Absent"
        proof (cases j)
          case 0
          with Absent show ?thesis by simp
        next
          case (Suc j')
          with \<open>j < Suc k\<close> ab fs show ?thesis by (simp add: add.assoc)
        qed
      qed
      have s'': "s' = s\<lparr>now := now s + 100 * Suc k,
            events := events s @ concat (replicate (Suc k) [EvRead path, EvSleep 100]) @
                      (if i + Suc k < 20 then [EvRead path] else [])\<rparr>"
        using s' by (simp add: Sleep_def s1_def)
      show ?thesis
        using k s'' ab' to fin fs t[of k]
        by (intro exI[of _ "Suc k"]) simp
    qed
  qed
qed

lemma count_reads:
  "length (filter (\<lambda>e. e = EvRead path) (concat (replicate k [EvRead path, EvSleep 100]) @ t))
     = k + length (filter (\<lambda>e. e = EvRead path) t)"
  by (induction k) simp_all

lemma getPid_frame:
  assumes "getPid p s = (res, p', s')"
  shows "open_fds s' = open_fds s \<and> next_fd s' = next_fd s \<and> fails s' = fails s \<and>
    written s' = written s \<and> files s' = files s \<and>
    root p' = root p \<and> exitPipe p' = exitPipe p \<and> controlPipe p' = controlPipe p \<and>
    (snd res \<noteq> None \<longrightarrow> p' = p) \<and> (snd res = None \<longrightarrow> pid p' = fst res)"
proof -
  from assms have "getPid_loop 0 p s = (res, p', s')" by (simp add: getPid_def)
  from getPid_loop_spec[OF this _ refl] obtain k where
    s': "s' = s\<lparr>now := now s + 100 * k,
            events := events s @ concat (replicate k [EvRead (Join (root p) ''pid''), EvSleep 100]) @
                      (if k < 20 then [EvRead (Join (root p) ''pid'')] else [])\<rparr>"
    and to: "k = 20 \<longrightarrow> res = (- 1, Some (ErrorString ''containerd: cannot read pid file'')) \<and> p' = p"
    and fin: "k < 20 \<longrightarrow>
        (case files s (now s + 100 * k) (Join (root p) ''pid'') of
           Absent \<Rightarrow> False
         | Unreadable msg \<Rightarrow> res = (- 1, Some (ErrIO msg)) \<and> p' = p
         | Contents d \<Rightarrow>
             (case Atoi d of
                (v, Some err) \<Rightarrow> res = (- 1, Some err) \<and> p' = p
              | (v, None) \<Rightarrow> res = (v, None) \<and> p' = p\<lparr>pid := v\<rparr>))"
    and k: "k \<le> 20"
    by auto
  have "(p' = p \<and> snd res \<noteq> None) \<or> (snd res = None \<and> p' = p\<lparr>pid := fst res\<rparr>)"
  proof (cases "k = 20")
    case True
    with to show ?thesis by simp
  next
    case False
    with k fin show ?thesis
      by (auto split: fstate.splits prod.splits option.splits)
  qed
  then show ?thesis using s' by auto
qed

lemma getPid_running:
  "getPid (fake_process None None) (fake_os fs bad) =
     ((1234, None), (fake_process None None)\<lparr>pid := 1234\<rparr>,
      (fake_os fs bad)\<lparr>events := [EvRead ''/run/p/pid'']\<rparr>)"
  if "fs 0 ''/run/p/pid'' = Contents ''1234''"
  using that
  by (simp add: getPid_def getPid_loop.simps ReadFile_def fake_process_def fake_os_def
      Join_def Atoi_1234)


lemma newProcess_control_failure:
  assumes ids: "getRootIDs (cfg_spec config) = Inr (uid, gid)"
    and cr: "fails s (SysCreate (Join (cfg_root config) ''process.json'')) = None"
    and wr: "fails s (SysWrite (next_fd s)) = None"
    and ex: "fails s (SysOpenPipe (Join (cfg_root config) ExitFile)) = None"
    and co: "fails s (SysOpenPipe (Join (cfg_root config) ControlFile)) = Some err"
  shows "fst (newProcess getRootIDs marshal config s) = Inl err \<and>
    open_fds (snd (newProcess getRootIDs marshal config s))
      = insert (Suc (next_fd s)) (open_fds s - {next_fd s})"
  using assms
  by (auto simp: newProcess_def os_Create_def getExitPipe_def getControlPipe_def open_fd_def
      file_Write_def file_Close_def Let_def)

section \<open>Facts about traces and the listing loop\<close>

lemma call_State_world: "world (snd (call_State c s)) = snd (State c (world s))"
  by (simp add: call_State_def emit_def split: prod.splits)

lemma call_State_fst: "fst (call_State c s) = fst (State c (world s))"
  by (simp add: call_State_def split: prod.splits)

lemma Create_trace:
  assumes rt: "runtimes s (rq_Runtime r) = Some runtime"
    and new: "containers s (rq_ID r) = None"
  shows "\<exists>c. drop (length (trace s)) (trace (snd (Create r s))) \<in>
     {[Lock, Lookup (rq_ID r), CallCreate (rq_ID r), Unlock],
      [Lock, Lookup (rq_ID r), CallCreate (rq_ID r), Insert (rq_ID r), Unlock, CallState c],
      [Lock, Lookup (rq_ID r), CallCreate (rq_ID r), Insert (rq_ID r), Unlock, CallState c,
       Lock, Remove (rq_ID r), CallDelete c, Unlock]}"
  using rt new
  by (auto simp: Create_def getRuntime_def emit_def call_Create_def call_State_def
      call_Delete_def Let_def split: prod.splits sum.splits option.splits)

lemma Create_trace_prefix:
  "take (length (trace s)) (trace (snd (Create r s))) = trace s"
  by (auto simp: Create_def getRuntime_def emit_def call_Create_def call_State_def
      call_Delete_def Let_def split: prod.splits sum.splits option.splits)

lemma List_loop_Inr:
  "fst (List_loop cs resp s) = Inr out \<Longrightarrow>
     \<exists>sts es. answers cs (world s) = map Inr sts \<and> length sts = length cs \<and>
       out = resp @ es \<and> length es = length cs \<and>
       (\<forall>i < length cs. reports (cs ! i) (sts ! i) (es ! i))"
proof (induction cs arbitrary: resp s out)
  case Nil
  then show ?case by simp
next
  case (Cons c cs)
  obtain a s1 where cs1: "call_State c s = (a, s1)" by (cases "call_State c s")
  show ?case
  proof (cases a)
    case (Inl e)
    with Cons.prems cs1 show ?thesis by simp
  next
    case (Inr st)
    define e where "e = \<lparr>ac_ID = info_ID (Info c), ac_Pid = st_Pid st,
        ac_Status = (case st_Status st of CreatedStatus \<Rightarrow> Status_CREATED
                 | RunningStatus \<Rightarrow> Status_RUNNING
                 | StoppedStatus \<Rightarrow> Status_STOPPED
                 | PausedStatus \<Rightarrow> Status_PAUSED
                 | OtherStatus n \<Rightarrow> 0)\<rparr>"
    have rep: "reports c st e"
      by (simp add: reports_def e_def Status_CREATED_def split: status.splits)
    from Cons.prems cs1 Inr have "fst (List_loop cs (resp @ [e]) s1) = Inr out"
      by (simp add: e_def)
    from Cons.IH[OF this] obtain sts es where
      a: "answers cs (world s1) = map Inr sts" and l: "length sts = length cs"
      and o: "out = (resp @ [e]) @ es" and le: "length es = length cs"
      and r: "\<forall>i < length cs. reports (cs ! i) (sts ! i) (es ! i)" by blast
    have w: "State c (world s) = (Inr st, world s1)"
      using cs1 Inr call_State_world[of c s] call_State_fst[of c s]
      by (cases "State c (world s)") simp
    have "answers (c # cs) (world s) = map Inr (st # sts)"
      using w a by simp
    moreover have "\<forall>i < length (c # cs). reports ((c # cs) ! i) ((st # sts) ! i) ((e # es) ! i)"
      using rep r by (auto simp: nth_Cons split: nat.splits)
    ultimately show ?thesis using l o le
      by (intro exI[of _ "st # sts"] exI[of _ "e # es"]) simp
  qed
qed

lemma List_loop_Inl:
  "fst (List_loop cs resp s) = Inl err \<longleftrightarrow> Inl err \<in> set (answers cs (world s))"
proof (induction cs arbitrary: resp s)
  case Nil
  then show ?case by simp
next
  case (Cons c cs)
  obtain a s1 where cs1: "call_State c s = (a, s1)" by (cases "call_State c s")
  obtain w1 where w: "State c (world s) = (a, w1)" and w1: "world s1 = w1"
    using cs1 call_State_world[of c s] call_State_fst[of c s]
    by (cases "State c (world s)") simp
  show ?case
  proof (cases a)
    case (Inl e)
    with cs1 w show ?thesis by auto
  next
    case (Inr st)
    with cs1 w w1 Cons.IH show ?thesis by (auto simp: Let_def)
  qed
qed

lemma map_filter_dom:
  "set ks \<subseteq> dom m \<Longrightarrow> map Some (List.map_filter m ks) = map m ks"
  by (induction ks) (auto simp: List.map_filter_simps)

lemma map_filter_nth:
  assumes "set ks \<subseteq> dom m" "i < length ks"
  shows "length (List.map_filter m ks) = length ks \<and> m (ks ! i) = Some (List.map_filter m ks ! i)"
proof -
  have e: "map Some (List.map_filter m ks) = map m ks" by (rule map_filter_dom[OF assms(1)])
  then have l: "length (List.map_filter m ks) = length ks"
    by (metis length_map)
  moreover have "map Some (List.map_filter m ks) ! i = map m ks ! i" using e by simp
  ultimately show ?thesis using assms(2) by simp
qed

lemma fst_List:
  "fst (List ks s) = fst (List_loop (List.map_filter (containers s) ks) [] (emit Lock s))"
  by (simp add: List_def emit_def split: prod.splits)

lemma Delete_containers: "containers (snd (Delete ident s)) = containers s"
  by (auto simp: Delete_def getContainer_def getRuntime_def call_Delete_def emit_def Let_def
      split: option.splits prod.splits sum.splits)

section \<open>Create\<close>

text \<open>
  C1, as the spec states it: while \<open>Create\<close> holds the registry lock it makes no call into
  a backend. The source calls \<open>runtime.Create\<close> between \<open>s.mu.Lock()\<close> and
  \<open>s.mu.Unlock()\<close>: for the request \<open>c1\<close> on an empty registry, an event that happens
  under the lock is a backend call.
\<close>

theorem Create_lock_counterexample:
  "\<not> (\<forall>e \<in> set (under_lock False
          (trace (snd (Create (request ''c1'')
             (fake_service (fake_runtime ''runc'' created_1234 None stopped_1234)))))).
        \<not> backend_call e)"
  by (simp add: Create_def Create_opts_def request_def fake_service_def fake_runtime_def
      getRuntime_def emit_def call_Create_def call_State_def fake_container_def
      created_1234_def)

text \<open>
  C1, amended: \<open>tr\<close> is what a call of \<open>Create\<close> adds to the trace. With an unknown
  runtime the lock is not taken. Otherwise the lock is taken before the existence check.
  If the identifier is registered, it is released right after the check. If it is not,
  the lock stays held, with no release in between, across the existence check, the
  backend's \<open>Create\<close> call and, when that call succeeds, the registration; it is released
  after the registration, or right after a failed backend \<open>Create\<close>: the backend's
  \<open>Create\<close> runs while the lock is held. The state query runs after the release. If
  it fails, the lock is taken again and held across the removal of the entry and the
  backend's \<open>Delete\<close> call. On every path no state query runs under the lock, every
  access to the map does, and the lock is free when \<open>Create\<close> returns.
\<close>

theorem Create_lock_scope:
  assumes tr: "tr = drop (length (trace s)) (trace (snd (Create r s)))"
  shows "trace (snd (Create r s)) = trace s @ tr \<and>
    (runtimes s (rq_Runtime r) = None \<longrightarrow> tr = []) \<and>
    (\<forall>runtime. runtimes s (rq_Runtime r) = Some runtime \<longrightarrow>
       (containers s (rq_ID r) \<noteq> None \<longrightarrow>
          tr = [Lock, Lookup (rq_ID r), Unlock] \<and> fst (Create r s) = Inl ErrContainerExists) \<and>
       (containers s (rq_ID r) = None \<longrightarrow>
          (case rt_Create runtime (rq_ID r) (Create_opts r) (world s) of
             (Inl err, w1) \<Rightarrow> tr = [Lock, Lookup (rq_ID r), CallCreate (rq_ID r), Unlock]
           | (Inr c, w1) \<Rightarrow>
               (case State c w1 of
                  (Inr st, w2) \<Rightarrow>
                    tr = [Lock, Lookup (rq_ID r), CallCreate (rq_ID r), Insert (rq_ID r), Unlock,
                          CallState (info_ID (Info c))]
                | (Inl err, w2) \<Rightarrow>
                    tr = [Lock, Lookup (rq_ID r), CallCreate (rq_ID r), Insert (rq_ID r), Unlock,
                          CallState (info_ID (Info c)),
                          Lock, Remove (rq_ID r), CallDelete (info_ID (Info c)), Unlock])) \<and>
          CallCreate (rq_ID r) \<in> set (under_lock False tr))) \<and>
    (\<forall>c. CallState c \<notin> set (under_lock False tr)) \<and>
    (\<forall>e \<in> set tr. e \<noteq> Lock \<and> e \<noteq> Unlock \<and> (\<forall>c. e \<noteq> CallState c) \<longrightarrow>
       e \<in> set (under_lock False tr)) \<and>
    \<not> held_after False tr"
proof -
  have pre: "trace (snd (Create r s)) = trace s @ tr"
    unfolding tr using Create_trace_prefix[of s r]
    by (metis append_take_drop_id)
  have none: "tr = []" if "runtimes s (rq_Runtime r) = None"
    using that by (simp add: tr Create_def getRuntime_def)
  have ex: "tr = [Lock, Lookup (rq_ID r), Unlock] \<and> fst (Create r s) = Inl ErrContainerExists"
    if "runtimes s (rq_Runtime r) = Some runtime" "containers s (rq_ID r) \<noteq> None" for runtime
    using that by (auto simp: tr Create_def getRuntime_def emit_def)
  have new: "(case rt_Create runtime (rq_ID r) (Create_opts r) (world s) of
             (Inl err, w1) \<Rightarrow> tr = [Lock, Lookup (rq_ID r), CallCreate (rq_ID r), Unlock]
           | (Inr c, w1) \<Rightarrow>
               (case State c w1 of
                  (Inr st, w2) \<Rightarrow>
                    tr = [Lock, Lookup (rq_ID r), CallCreate (rq_ID r), Insert (rq_ID r), Unlock,
                          CallState (info_ID (Info c))]
                | (Inl err, w2) \<Rightarrow>
                    tr = [Lock, Lookup (rq_ID r), CallCreate (rq_ID r), Insert (rq_ID r), Unlock,
                          CallState (info_ID (Info c)),
                          Lock, Remove (rq_ID r), CallDelete (info_ID (Info c)), Unlock]))"
    if "runtimes s (rq_Runtime r) = Some runtime" "containers s (rq_ID r) = None" for runtime
    using that
    by (auto simp: tr Create_def getRuntime_def emit_def call_Create_def call_State_def
        call_Delete_def Let_def split: prod.splits sum.splits)
  have shape: "tr = [] \<or> tr = [Lock, Lookup (rq_ID r), Unlock] \<or>
      tr = [Lock, Lookup (rq_ID r), CallCreate (rq_ID r), Unlock] \<or>
      (\<exists>c. tr = [Lock, Lookup (rq_ID r), CallCreate (rq_ID r), Insert (rq_ID r), Unlock,
                 CallState c]) \<or>
      (\<exists>c. tr = [Lock, Lookup (rq_ID r), CallCreate (rq_ID r), Insert (rq_ID r), Unlock,
                 CallState c, Lock, Remove (rq_ID r), CallDelete c, Unlock])"
  proof (cases "runtimes s (rq_Runtime r)")
    case None
    with none show ?thesis by simp
  next
    case (Some runtime)
    show ?thesis
    proof (cases "containers s (rq_ID r)")
      case (Some c0)
      with ex[OF \<open>runtimes s (rq_Runtime r) = Some runtime\<close>] show ?thesis by simp
    next
      case None
      from Create_trace[OF \<open>runtimes s (rq_Runtime r) = Some runtime\<close> None] show ?thesis
        unfolding tr by blast
    qed
  qed
  have cc: "CallCreate (rq_ID r) \<in> set (under_lock False tr)"
    if "runtimes s (rq_Runtime r) = Some runtime" "containers s (rq_ID r) = None" for runtime
    using Create_trace[OF that] unfolding tr by auto
  have q: "\<forall>c. CallState c \<notin> set (under_lock False tr)"
    using shape by auto
  have m: "\<forall>e \<in> set tr. e \<noteq> Lock \<and> e \<noteq> Unlock \<and> (\<forall>c. e \<noteq> CallState c) \<longrightarrow>
       e \<in> set (under_lock False tr)"
    using shape by auto
  have h: "\<not> held_after False tr"
    using shape by auto
  show ?thesis
  proof (intro conjI allI impI)
    fix runtime
    assume rt: "runtimes s (rq_Runtime r) = Some runtime"
    {
      assume e: "containers s (rq_ID r) \<noteq> None"
      from ex[OF rt e] show "tr = [Lock, Lookup (rq_ID r), Unlock]" by simp
      from ex[OF rt e] show "fst (Create r s) = Inl ErrContainerExists" by simp
    }
    {
      assume n: "containers s (rq_ID r) = None"
      from rt n show "(case rt_Create runtime (rq_ID r) (Create_opts r) (world s) of
             (Inl err, w1) \<Rightarrow> tr = [Lock, Lookup (rq_ID r), CallCreate (rq_ID r), Unlock]
           | (Inr c, w1) \<Rightarrow>
               (case State c w1 of
                  (Inr st, w2) \<Rightarrow>
                    tr = [Lock, Lookup (rq_ID r), CallCreate (rq_ID r), Insert (rq_ID r), Unlock,
                          CallState (info_ID (Info c))]
                | (Inl err, w2) \<Rightarrow>
                    tr = [Lock, Lookup (rq_ID r), CallCreate (rq_ID r), Insert (rq_ID r), Unlock,
                          CallState (info_ID (Info c)),
                          Lock, Remove (rq_ID r), CallDelete (info_ID (Info c)), Unlock]))"
        by (rule new)
      from rt n show "CallCreate (rq_ID r) \<in> set (under_lock False tr)" by (rule cc)
    }
  next
    assume "runtimes s (rq_Runtime r) = None"
    then show "tr = []" by (rule none)
  next
    show "trace (snd (Create r s)) = trace s @ tr" by (rule pre)
  next
    show "\<not> held_after False tr" by (rule h)
  next
    fix c show "CallState c \<notin> set (under_lock False tr)" using q by blast
  next
    show "\<forall>e \<in> set tr. e \<noteq> Lock \<and> e \<noteq> Unlock \<and> (\<forall>c. e \<noteq> CallState c) \<longrightarrow>
       e \<in> set (under_lock False tr)" by (rule m)
  qed
qed


theorem Create_lock_scope_witness:
  "trace (snd (Create (request ''c1'')
     (fake_service (fake_runtime ''runc'' (Inl (Opaque ''boom'')) None stopped_1234))))
     = [Lock, Lookup ''c1'', CallCreate ''c1'', Insert ''c1'', Unlock, CallState ''c1'',
        Lock, Remove ''c1'', CallDelete ''c1'', Unlock] \<and>
   trace (snd (Create (request ''c1'')
     (fake_service (fake_runtime ''runc'' created_1234 None stopped_1234))))
     = [Lock, Lookup ''c1'', CallCreate ''c1'', Insert ''c1'', Unlock, CallState ''c1''] \<and>
   trace (snd (Create (request ''c1'') (listed_service odd_world)))
     = [Lock, Lookup ''c1'', Unlock] \<and>
   fst (Create (request ''c1'') (listed_service odd_world)) = Inl ErrContainerExists \<and>
   trace (snd (Create ((request ''c1'')\<lparr>rq_Runtime := ''kata''\<rparr>) (listed_service odd_world)))
     = [] \<and>
   CallCreate ''c1'' \<in> set (under_lock False (trace (snd (Create (request ''c1'')
     (fake_service (fake_runtime ''runc'' created_1234 None stopped_1234))))))"
proof -
  let ?r = "request ''c1''"
  let ?c = "fake_container ''c1'' ''runc''"
  let ?w0 = "\<lambda>i. Inl (Opaque ''no such container'') :: error + cstate"
  \<comment> \<open>the state query fails\<close>
  let ?rt = "fake_runtime ''runc'' (Inl (Opaque ''boom'')) None stopped_1234"
  let ?s = "fake_service ?rt"
  have a1: "runtimes ?s (rq_Runtime ?r) = Some ?rt"
    by (simp add: fake_service_def request_def)
  have a2: "containers ?s (rq_ID ?r) = None"
    by (simp add: fake_service_def)
  have a3: "rt_Create ?rt (rq_ID ?r) (Create_opts ?r) (world ?s)
      = (Inr ?c, ?w0(''c1'' := Inl (Opaque ''boom'')))"
    by (simp add: fake_runtime_def fake_service_def request_def)
  have a4: "State ?c (?w0(''c1'' := Inl (Opaque ''boom'')))
      = (Inl (Opaque ''boom''), ?w0(''c1'' := Inl (Opaque ''boom'')))"
    by (simp add: fake_container_def)
  have a0: "trace ?s = []" by (simp add: fake_service_def)
  have idr: "rq_ID ?r = ''c1''" by (simp add: request_def)
  have idc: "info_ID (Info ?c) = ''c1''" by (simp add: fake_container_def)
  from Create_lock_scope[where s = "?s" and r = "?r", OF refl] a1 a2 a3 a4 a0
  have a: "trace (snd (Create ?r ?s))
     = [Lock, Lookup ''c1'', CallCreate ''c1'', Insert ''c1'', Unlock, CallState ''c1'',
        Lock, Remove ''c1'', CallDelete ''c1'', Unlock]"
    by (simp add: idr idc)
  \<comment> \<open>the state query succeeds\<close>
  let ?rt' = "fake_runtime ''runc'' created_1234 None stopped_1234"
  let ?s' = "fake_service ?rt'"
  have b1: "runtimes ?s' (rq_Runtime ?r) = Some ?rt'"
    by (simp add: fake_service_def request_def)
  have b2: "containers ?s' (rq_ID ?r) = None"
    by (simp add: fake_service_def)
  have b3: "rt_Create ?rt' (rq_ID ?r) (Create_opts ?r) (world ?s')
      = (Inr ?c, ?w0(''c1'' := created_1234))"
    by (simp add: fake_runtime_def fake_service_def request_def)
  have b4: "State ?c (?w0(''c1'' := created_1234))
      = (Inr \<lparr>st_Status = CreatedStatus, st_Pid = 1234\<rparr>, ?w0(''c1'' := created_1234))"
    by (simp add: fake_container_def created_1234_def)
  have b0: "trace ?s' = []" by (simp add: fake_service_def)
  from Create_lock_scope[where s = "?s'" and r = "?r", OF refl] b1 b2 b3 b4 b0
  have b: "trace (snd (Create ?r ?s'))
     = [Lock, Lookup ''c1'', CallCreate ''c1'', Insert ''c1'', Unlock, CallState ''c1'']"
    by (simp add: idr idc)
  \<comment> \<open>the identifier is registered\<close>
  let ?l = "listed_service odd_world"
  have c1: "runtimes ?l (rq_Runtime ?r) = Some ?rt'"
    by (simp add: listed_service_def request_def)
  have c2: "containers ?l (rq_ID ?r) \<noteq> None"
    by (simp add: listed_service_def request_def)
  have c0: "trace ?l = []" by (simp add: listed_service_def)
  from Create_lock_scope[where s = "?l" and r = "?r", OF refl] c1 c2 c0
  have c: "trace (snd (Create ?r ?l)) = [Lock, Lookup ''c1'', Unlock]"
    by (simp add: idr)
  have c': "fst (Create ?r ?l) = Inl ErrContainerExists"
    by (simp add: Create_def getRuntime_def emit_def listed_service_def request_def)
  \<comment> \<open>the runtime is unknown\<close>
  let ?k = "?r\<lparr>rq_Runtime := ''kata''\<rparr>"
  have d1: "runtimes ?l (rq_Runtime ?k) = None"
    by (simp add: listed_service_def)
  from Create_lock_scope[where s = "?l" and r = "?k", OF refl] d1 c0
  have d: "trace (snd (Create ?k ?l)) = []"
    by simp
  from a b c c' d show ?thesis by simp
qed

text \<open>
  C3: when the backend created the container and the state query that follows the
  registration fails with \<open>err\<close>, \<open>Create\<close> returns \<open>err\<close>; the identifier is not in the
  map afterwards (the map is as it was before the call); the backend was asked to delete
  the container, as the last backend call and in the world the query left; and the
  result of that delete, whatever it is, is dropped.
\<close>

theorem Create_state_failure:
  assumes rt: "runtimes s (rq_Runtime r) = Some runtime"
    and new: "containers s (rq_ID r) = None"
    and cr: "rt_Create runtime (rq_ID r) (Create_opts r) (world s) = (Inr c, w1)"
    and st: "State c w1 = (Inl err, w2)"
    and del: "rt_Delete runtime c w2 = (result, w3)"
  shows "fst (Create r s) = Inl err \<and>
    containers (snd (Create r s)) (rq_ID r) = None \<and>
    containers (snd (Create r s)) = containers s \<and>
    world (snd (Create r s)) = w3 \<and>
    trace (snd (Create r s)) = trace s @
      [Lock, Lookup (rq_ID r), CallCreate (rq_ID r), Insert (rq_ID r), Unlock,
       CallState (info_ID (Info c)), Lock, Remove (rq_ID r), CallDelete (info_ID (Info c)),
       Unlock]"
proof -
  have "(containers s)(rq_ID r := None) = containers s"
    using new by (auto simp: fun_eq_iff)
  then show ?thesis
    using rt new cr st del
    by (simp add: Create_def getRuntime_def emit_def call_Create_def call_State_def
        call_Delete_def Let_def)
qed

theorem Create_state_failure_witness:
  "rt_Delete (fake_runtime ''runc'' (Inl (Opaque ''boom'')) (Some (Opaque ''busy'')) stopped_1234)
     (fake_container ''c1'' ''runc'')
     ((\<lambda>i. Inl (Opaque ''no such container''))(''c1'' := Inl (Opaque ''boom'')))
     = (Some (Opaque ''busy''),
        (\<lambda>i. Inl (Opaque ''no such container''))(''c1'' := stopped_1234)) \<and>
   fst (Create (request ''c1'')
     (fake_service
        (fake_runtime ''runc'' (Inl (Opaque ''boom'')) (Some (Opaque ''busy'')) stopped_1234)))
     = Inl (Opaque ''boom'') \<and>
   containers (snd (Create (request ''c1'')
     (fake_service
        (fake_runtime ''runc'' (Inl (Opaque ''boom'')) (Some (Opaque ''busy'')) stopped_1234))))
     ''c1'' = None \<and>
   world (snd (Create (request ''c1'')
     (fake_service
        (fake_runtime ''runc'' (Inl (Opaque ''boom'')) (Some (Opaque ''busy'')) stopped_1234))))
     ''c1'' = stopped_1234"
proof -
  let ?rt = "fake_runtime ''runc'' (Inl (Opaque ''boom'')) (Some (Opaque ''busy'')) stopped_1234"
  let ?s = "fake_service ?rt"
  let ?r = "request ''c1''"
  let ?c = "fake_container ''c1'' ''runc''"
  let ?w1 = "(\<lambda>i. Inl (Opaque ''no such container''))(''c1'' := Inl (Opaque ''boom''))"
  let ?w3 = "(\<lambda>i. Inl (Opaque ''no such container''))(''c1'' := stopped_1234)"
  have h1: "runtimes ?s (rq_Runtime ?r) = Some ?rt"
    by (simp add: fake_service_def request_def)
  have h2: "containers ?s (rq_ID ?r) = None"
    by (simp add: fake_service_def)
  have h3: "rt_Create ?rt (rq_ID ?r) (Create_opts ?r) (world ?s) = (Inr ?c, ?w1)"
    by (simp add: fake_runtime_def fake_service_def request_def)
  have h4: "State ?c ?w1 = (Inl (Opaque ''boom''), ?w1)"
    by (simp add: fake_container_def)
  have h5: "rt_Delete ?rt ?c ?w1 = (Some (Opaque ''busy''), ?w3)"
    by (simp add: fake_runtime_def fake_container_def)
  from Create_state_failure[OF h1 h2 h3 h4 h5] h5 show ?thesis
    by (simp add: request_def fake_service_def)
qed

section \<open>Delete and List\<close>

text \<open>
  C2 asks that after a successful \<open>Delete\<close> a listing no longer shows the identifier.
  \<open>Delete\<close> never writes to the map \<open>containers\<close> (lemma \<open>Delete_containers\<close>), while
  the roll-back of \<open>Create\<close> removes the entry when it asks the backend to delete. Run on
  the source: \<open>c1\<close> is created, its deletion succeeds, and \<open>c1\<close> is still registered and
  listed, with the status the backend reports for it now.
\<close>

theorem Delete_keeps_entry:
  "fst (Create (request ''c1'') (fake_service (fake_runtime ''runc'' created_1234 None stopped_1234)))
     = Inr \<lparr>cr_ID = ''c1'', cr_Pid = 1234\<rparr> \<and>
   fst (Delete ''c1'' (snd (Create (request ''c1'')
     (fake_service (fake_runtime ''runc'' created_1234 None stopped_1234))))) = Inr () \<and>
   dom (containers (snd (Delete ''c1'' (snd (Create (request ''c1'')
     (fake_service (fake_runtime ''runc'' created_1234 None stopped_1234))))))) = {''c1''} \<and>
   fst (List [''c1''] (snd (Delete ''c1'' (snd (Create (request ''c1'')
     (fake_service (fake_runtime ''runc'' created_1234 None stopped_1234)))))))
     = Inr [\<lparr>ac_ID = ''c1'', ac_Pid = 1234, ac_Status = Status_STOPPED\<rparr>]"
  by (simp add: Create_def Create_opts_def Delete_def List_def getContainer_def getRuntime_def
      call_Create_def call_State_def call_Delete_def emit_def request_def fake_service_def
      fake_runtime_def fake_container_def created_1234_def stopped_1234_def
      List.map_filter_simps)

text \<open>
  C8: \<open>List\<close> visits the registered containers in the order \<open>ks\<close> of the map iteration.
  Either every state query succeeds and the result is a listing with exactly one entry
  for each registered container, carrying its identifier and the pid and status its
  query answered; or some query fails and the result is that error, with no listing.
\<close>

theorem List_all_or_nothing:
  assumes d: "distinct ks" and k: "set ks = dom (containers s)"
    and cs: "cs = List.map_filter (containers s) ks"
  shows "(\<exists>sts resp. answers cs (world s) = map Inr sts \<and> fst (List ks s) = Inr resp \<and>
            length resp = card (dom (containers s)) \<and> length sts = length resp \<and>
            (\<forall>i < length ks. \<exists>c. containers s (ks ! i) = Some c \<and> reports c (sts ! i) (resp ! i)))
       \<or> (\<exists>err. Inl err \<in> set (answers cs (world s)) \<and> fst (List ks s) = Inl err)"
proof (cases "fst (List ks s)")
  case (Inl err)
  then have "Inl err \<in> set (answers cs (world s))"
    using List_loop_Inl[of cs "[]" "emit Lock s" err]
    by (simp add: fst_List cs emit_def)
  with Inl show ?thesis by blast
next
  case (Inr resp)
  then have "fst (List_loop cs [] (emit Lock s)) = Inr resp"
    by (simp add: fst_List cs)
  from List_loop_Inr[OF this] obtain sts where
    a: "answers cs (world s) = map Inr sts" and l: "length sts = length cs"
    and le: "length resp = length cs"
    and r: "\<forall>i < length cs. reports (cs ! i) (sts ! i) (resp ! i)"
    by (auto simp: emit_def)
  have sub: "set ks \<subseteq> dom (containers s)" using k by simp
  have lk: "length cs = length ks"
    using map_filter_dom[OF sub] cs by (metis length_map)
  have card: "length ks = card (dom (containers s))"
    using d k distinct_card by fastforce
  have "\<forall>i < length ks. \<exists>c. containers s (ks ! i) = Some c \<and> reports c (sts ! i) (resp ! i)"
    using map_filter_nth[OF sub] r lk cs by auto
  with a Inr l le lk card show ?thesis by auto
qed


theorem List_all_or_nothing_witness:
  "distinct [''c1'', ''c2''] \<and> set [''c1'', ''c2''] = dom (containers (listed_service broken_world)) \<and>
   fst (List [''c1'', ''c2''] (listed_service broken_world)) = Inl (Opaque ''state unavailable'') \<and>
   distinct [''c2'', ''c1''] \<and> set [''c2'', ''c1''] = dom (containers (listed_service odd_world)) \<and>
   fst (List [''c2'', ''c1''] (listed_service odd_world)) =
     Inr [\<lparr>ac_ID = ''c2'', ac_Pid = 42, ac_Status = Status_RUNNING\<rparr>,
          \<lparr>ac_ID = ''c1'', ac_Pid = 41, ac_Status = Status_CREATED\<rparr>]"
proof -
  have d1: "distinct [''c1'', ''c2'']" and d2: "distinct [''c2'', ''c1'']" by simp_all
  have k1: "set [''c1'', ''c2''] = dom (containers (listed_service broken_world))"
    by (auto simp: listed_service_def)
  have k2: "set [''c2'', ''c1''] = dom (containers (listed_service odd_world))"
    by (auto simp: listed_service_def)
  have a1: "answers (List.map_filter (containers (listed_service broken_world)) [''c1'', ''c2''])
      (world (listed_service broken_world))
      = [Inr \<lparr>st_Status = RunningStatus, st_Pid = 41\<rparr>, Inl (Opaque ''state unavailable'')]"
    by (simp add: listed_service_def List.map_filter_simps fake_container_def broken_world_def)
  have a2: "answers (List.map_filter (containers (listed_service odd_world)) [''c2'', ''c1''])
      (world (listed_service odd_world))
      = [Inr \<lparr>st_Status = RunningStatus, st_Pid = 42\<rparr>, Inr \<lparr>st_Status = OtherStatus 7, st_Pid = 41\<rparr>]"
    by (simp add: listed_service_def List.map_filter_simps fake_container_def odd_world_def)
  have r1: "fst (List [''c1'', ''c2''] (listed_service broken_world)) = Inl (Opaque ''state unavailable'')"
    using List_all_or_nothing[OF d1 k1 refl] a1 by auto
  have r2: "fst (List [''c2'', ''c1''] (listed_service odd_world)) =
     Inr [\<lparr>ac_ID = ''c2'', ac_Pid = 42, ac_Status = Status_RUNNING\<rparr>,
          \<lparr>ac_ID = ''c1'', ac_Pid = 41, ac_Status = Status_CREATED\<rparr>]"
    by (simp add: List_def listed_service_def List.map_filter_simps fake_container_def odd_world_def
        call_State_def emit_def Status_CREATED_def)
  from d1 d2 k1 k2 r1 r2 show ?thesis by blast
qed

text \<open>
  C10: in a listing that \<open>List\<close> returns, the entry of a registered container whose
  state query answered a status other than Created, Running, Stopped and Paused has the
  status CREATED, which is the zero value 0 of the enumeration (the switch has no default
  branch); the four named statuses give CREATED, RUNNING, STOPPED and PAUSED.
\<close>

theorem List_status_switch:
  assumes d: "distinct ks" and k: "set ks = dom (containers s)"
    and ok: "fst (List ks s) = Inr resp"
    and c: "containers s ident = Some c"
  shows "Status_CREATED = 0 \<and>
    (\<exists>i st. i < length resp \<and> ks ! i = ident \<and>
       answers (List.map_filter (containers s) ks) (world s) ! i = Inr st \<and>
       ac_ID (resp ! i) = info_ID (Info c) \<and> ac_Pid (resp ! i) = st_Pid st \<and>
       (st_Status st \<notin> {CreatedStatus, RunningStatus, StoppedStatus, PausedStatus} \<longrightarrow>
          ac_Status (resp ! i) = Status_CREATED) \<and>
       (st_Status st = CreatedStatus \<longrightarrow> ac_Status (resp ! i) = Status_CREATED) \<and>
       (st_Status st = RunningStatus \<longrightarrow> ac_Status (resp ! i) = Status_RUNNING) \<and>
       (st_Status st = StoppedStatus \<longrightarrow> ac_Status (resp ! i) = Status_STOPPED) \<and>
       (st_Status st = PausedStatus \<longrightarrow> ac_Status (resp ! i) = Status_PAUSED))"
proof -
  let ?cs = "List.map_filter (containers s) ks"
  from ok have "fst (List_loop ?cs [] (emit Lock s)) = Inr resp"
    by (simp add: fst_List)
  from List_loop_Inr[OF this] obtain sts where
    a: "answers ?cs (world s) = map Inr sts" and l: "length sts = length ?cs"
    and le: "length resp = length ?cs"
    and r: "\<forall>i < length ?cs. reports (?cs ! i) (sts ! i) (resp ! i)"
    by (auto simp: emit_def)
  have sub: "set ks \<subseteq> dom (containers s)" using k by simp
  from c k have "ident \<in> set ks" by auto
  then obtain i where i: "i < length ks" "ks ! i = ident"
    by (auto simp: in_set_conv_nth)
  from map_filter_nth[OF sub i(1)] i(2) c
  have lk: "length ?cs = length ks" and ci: "?cs ! i = c" by auto
  from r lk i(1) ci have rep: "reports c (sts ! i) (resp ! i)" by auto
  have ans: "answers ?cs (world s) ! i = Inr (sts ! i)"
    using a l lk i(1) by simp
  have "i < length resp" using le lk i(1) by simp
  with i(2) ans rep show ?thesis
    unfolding reports_def Status_CREATED_def
    by (intro conjI exI[of _ i] exI[of _ "sts ! i"]) auto
qed

theorem List_status_switch_witness:
  "distinct [''c2'', ''c1''] \<and> set [''c2'', ''c1''] = dom (containers (listed_service odd_world)) \<and>
   containers (listed_service odd_world) ''c1'' = Some (fake_container ''c1'' ''runc'') \<and>
   State (fake_container ''c1'' ''runc'') odd_world
     = (Inr \<lparr>st_Status = OtherStatus 7, st_Pid = 41\<rparr>, odd_world) \<and>
   fst (List [''c2'', ''c1''] (listed_service odd_world)) =
     Inr [\<lparr>ac_ID = ''c2'', ac_Pid = 42, ac_Status = Status_RUNNING\<rparr>,
          \<lparr>ac_ID = ''c1'', ac_Pid = 41, ac_Status = Status_CREATED\<rparr>]"
proof -
  have d: "distinct [''c2'', ''c1'']" by simp
  have k: "set [''c2'', ''c1''] = dom (containers (listed_service odd_world))"
    by (auto simp: listed_service_def)
  have c: "containers (listed_service odd_world) ''c1'' = Some (fake_container ''c1'' ''runc'')"
    by (simp add: listed_service_def)
  have q: "State (fake_container ''c1'' ''runc'') odd_world
     = (Inr \<lparr>st_Status = OtherStatus 7, st_Pid = 41\<rparr>, odd_world)"
    by (simp add: fake_container_def odd_world_def)
  have ok: "fst (List [''c2'', ''c1''] (listed_service odd_world)) =
     Inr [\<lparr>ac_ID = ''c2'', ac_Pid = 42, ac_Status = Status_RUNNING\<rparr>,
          \<lparr>ac_ID = ''c1'', ac_Pid = 41, ac_Status = Status_CREATED\<rparr>]"
    by (simp add: List_def listed_service_def List.map_filter_simps fake_container_def odd_world_def
        call_State_def emit_def Status_CREATED_def)
  from List_status_switch[OF d k ok c] d k c q ok show ?thesis by blast
qed

section \<open>The process supervisor\<close>

text \<open>
  C4 asks that a failed construction releases everything it had opened. The deferred
  \<open>f.Close()\<close> releases the file \<open>process.json\<close> on every return, but the return after
  a failed \<open>getControlPipe\<close> does not close the exit pipe (lemma
  \<open>newProcess_control_failure\<close>). Run on the source, with the control pipe failing to
  open: construction fails, and of the descriptors it opened (3 for \<open>process.json\<close>, 4
  for the exit pipe) descriptor 4 is still open afterwards.
\<close>

theorem newProcess_leaks_exit_pipe:
  "fst (newProcess (\<lambda>spec. Inr (0, 0)) (\<lambda>st. ''{}'') fake_config
          (fake_os no_files (no_pipe ''/run/p/control'')))
     = Inl (ErrIO ''too many open files'') \<and>
   open_fds (fake_os no_files (no_pipe ''/run/p/control'')) = {} \<and>
   fst (getExitPipe ''/run/p/exit''
          ((fake_os no_files (no_pipe ''/run/p/control''))\<lparr>open_fds := {3}, next_fd := 4\<rparr>))
     = Inr 4 \<and>
   open_fds (snd (newProcess (\<lambda>spec. Inr (0, 0)) (\<lambda>st. ''{}'') fake_config
          (fake_os no_files (no_pipe ''/run/p/control'')))) = {4}"
  by (simp add: newProcess_def os_Create_def getExitPipe_def getControlPipe_def open_fd_def
      file_Write_def file_Close_def fake_config_def fake_os_def no_pipe_def Join_def
      ExitFile_def ControlFile_def insert_Diff_if)

text \<open>
  C5: \<open>getPid\<close> always returns. It reads the pid file \<open>k + 1\<close> times when \<open>k < 20\<close> and
  20 times otherwise, and sleeps 100 ms after each of the first \<open>k\<close> reads, which found the
  file absent. With \<open>k = 20\<close> the result is the error \<open>cannot read pid file\<close>, which is
  neither a not-exist error nor an error of \<open>Atoi\<close>. With \<open>k < 20\<close> the last read found
  the file: a read error or an \<open>Atoi\<close> error is returned at once, and otherwise the result
  is the number \<open>Atoi\<close> parsed, stored as the supervisor's pid; a file holding the decimal
  rendering of \<open>n\<close> gives exactly \<open>n\<close>.
\<close>

theorem getPid_discovery:
  assumes run: "getPid p s = (res, p', s')" and path: "path = Join (root p) ''pid''"
  shows "\<exists>k \<le> 20.
     s' = s\<lparr>now := now s + 100 * k,
            events := events s @ concat (replicate k [EvRead path, EvSleep 100]) @
                      (if k < 20 then [EvRead path] else [])\<rparr> \<and>
     length (filter (\<lambda>e. e = EvRead path) (drop (length (events s)) (events s')))
       = (if k < 20 then k + 1 else 20) \<and>
     (\<forall>j < k. files s (now s + 100 * j) path = Absent) \<and>
     (k = 20 \<longrightarrow> res = (- 1, Some (ErrorString ''containerd: cannot read pid file'')) \<and> p' = p) \<and>
     (k < 20 \<longrightarrow>
        (case files s (now s + 100 * k) path of
           Absent \<Rightarrow> False
         | Unreadable msg \<Rightarrow> res = (- 1, Some (ErrIO msg)) \<and> p' = p
         | Contents d \<Rightarrow>
             (case Atoi d of
                (v, Some err) \<Rightarrow> res = (- 1, Some err) \<and> p' = p
              | (v, None) \<Rightarrow> res = (v, None) \<and> p' = p\<lparr>pid := v\<rparr>))) \<and>
     (\<forall>n. k < 20 \<and> - (2 ^ 63) \<le> n \<and> n < 2 ^ 63 \<and>
          files s (now s + 100 * k) path = Contents (itoa n) \<longrightarrow>
          res = (n, None) \<and> p' = p\<lparr>pid := n\<rparr>) \<and>
     (\<forall>d. k < 20 \<and> files s (now s + 100 * k) path = Contents d \<and> \<not> is_decimal d \<longrightarrow>
          fst res = - 1 \<and> snd res \<noteq> None \<and> p' = p) \<and>
     \<not> IsNotExist (ErrorString ''containerd: cannot read pid file'') \<and>
     (\<forall>d. snd (Atoi d) \<noteq> Some (ErrorString ''containerd: cannot read pid file''))"
proof -
  from run have "getPid_loop 0 p s = (res, p', s')" by (simp add: getPid_def)
  from getPid_loop_spec[OF this _ path] obtain k where k: "k \<le> 20"
    and s': "s' = s\<lparr>now := now s + 100 * k,
            events := events s @ concat (replicate k [EvRead path, EvSleep 100]) @
                      (if k < 20 then [EvRead path] else [])\<rparr>"
    and ab: "\<forall>j < k. files s (now s + 100 * j) path = Absent"
    and to: "k = 20 \<longrightarrow> res = (- 1, Some (ErrorString ''containerd: cannot read pid file'')) \<and> p' = p"
    and fin: "k < 20 \<longrightarrow>
        (case files s (now s + 100 * k) path of
           Absent \<Rightarrow> False
         | Unreadable msg \<Rightarrow> res = (- 1, Some (ErrIO msg)) \<and> p' = p
         | Contents d \<Rightarrow>
             (case Atoi d of
                (v, Some err) \<Rightarrow> res = (- 1, Some err) \<and> p' = p
              | (v, None) \<Rightarrow> res = (v, None) \<and> p' = p\<lparr>pid := v\<rparr>))"
    by auto
  have cnt: "length (filter (\<lambda>e. e = EvRead path) (drop (length (events s)) (events s')))
       = (if k < 20 then k + 1 else 20)"
  proof -
    have "drop (length (events s)) (events s') =
        concat (replicate k [EvRead path, EvSleep 100]) @ (if k < 20 then [EvRead path] else [])"
      by (simp add: s')
    then show ?thesis
      unfolding count_reads using k by (simp only: count_reads) simp
  qed
  have dec: "res = (n, None) \<and> p' = p\<lparr>pid := n\<rparr>"
    if "k < 20 \<and> - (2 ^ 63) \<le> n \<and> n < 2 ^ 63 \<and> files s (now s + 100 * k) path = Contents (itoa n)" for n
    using that fin Atoi_itoa[of n] by simp
  have bad: "fst res = - 1 \<and> snd res \<noteq> None \<and> p' = p"
    if "k < 20 \<and> files s (now s + 100 * k) path = Contents d \<and> \<not> is_decimal d" for d
  proof -
    from that have "snd (Atoi d) \<noteq> None" using Atoi_not_decimal by simp
    then obtain v err where "Atoi d = (v, Some err)" by (cases "Atoi d") auto
    with that fin show ?thesis by simp
  qed
  have ne: "snd (Atoi d) \<noteq> Some (ErrorString ''containerd: cannot read pid file'')" for d
    using Atoi_errors[of d] by auto
  show ?thesis
  proof (intro exI[of _ k] conjI)
    show "\<forall>d. k < 20 \<and> files s (now s + 100 * k) path = Contents d \<and> \<not> is_decimal d \<longrightarrow>
          fst res = - 1 \<and> snd res \<noteq> None \<and> p' = p"
      using bad by blast
    show "\<forall>n. k < 20 \<and> - (2 ^ 63) \<le> n \<and> n < 2 ^ 63 \<and>
          files s (now s + 100 * k) path = Contents (itoa n) \<longrightarrow>
          res = (n, None) \<and> p' = p\<lparr>pid := n\<rparr>"
      using dec by blast
    show "\<forall>d. snd (Atoi d) \<noteq> Some (ErrorString ''containerd: cannot read pid file'')"
      using ne by blast
  qed (use k s' cnt ab to fin in simp_all)
qed

theorem getPid_discovery_witness:
  "getPid (fake_process None None) (fake_os pid_after_300 all_ok) =
     ((1234, None), (fake_process None None)\<lparr>pid := 1234\<rparr>,
      (fake_os pid_after_300 all_ok)
        \<lparr>now := 300,
         events := [EvRead ''/run/p/pid'', EvSleep 100, EvRead ''/run/p/pid'', EvSleep 100,
                    EvRead ''/run/p/pid'', EvSleep 100, EvRead ''/run/p/pid'']\<rparr>) \<and>
   getPid (fake_process None None) (fake_os no_files all_ok) =
     ((- 1, Some (ErrorString ''containerd: cannot read pid file'')), fake_process None None,
      (fake_os no_files all_ok)
        \<lparr>now := 2000,
         events := concat (replicate 20 [EvRead ''/run/p/pid'', EvSleep 100])\<rparr>) \<and>
   fst (getPid (fake_process None None) (fake_os unreadable_pid all_ok)) =
     (- 1, Some (ErrIO ''permission denied''))"
proof -
  have h1: "getPid (fake_process None None) (fake_os pid_after_300 all_ok) =
     ((1234, None), (fake_process None None)\<lparr>pid := 1234\<rparr>,
      (fake_os pid_after_300 all_ok)
        \<lparr>now := 300,
         events := [EvRead ''/run/p/pid'', EvSleep 100, EvRead ''/run/p/pid'', EvSleep 100,
                    EvRead ''/run/p/pid'', EvSleep 100, EvRead ''/run/p/pid'']\<rparr>)"
    by (simp add: getPid_def getPid_loop.simps ReadFile_def Sleep_def fake_process_def
        fake_os_def pid_after_300_def Join_def Atoi_1234)
  have h2: "getPid (fake_process None None) (fake_os no_files all_ok) =
     ((- 1, Some (ErrorString ''containerd: cannot read pid file'')), fake_process None None,
      (fake_os no_files all_ok)
        \<lparr>now := 2000,
         events := concat (replicate 20 [EvRead ''/run/p/pid'', EvSleep 100])\<rparr>)"
    by (simp add: getPid_def getPid_loop.simps ReadFile_def Sleep_def fake_process_def
        fake_os_def no_files_def Join_def numeral_eq_Suc)
  have h3: "fst (getPid (fake_process None None) (fake_os unreadable_pid all_ok)) =
     (- 1, Some (ErrIO ''permission denied''))"
    by (simp add: getPid_def getPid_loop.simps ReadFile_def fake_process_def
        fake_os_def unreadable_pid_def Join_def)
  from getPid_discovery[OF h1 refl] getPid_discovery[OF h2 refl] h1 h2 h3 show ?thesis
    by blast
qed

text \<open>
  C6: \<open>ExitStatus\<close> returns \<open>ErrProcessNotExited\<close> exactly when the exit-status file is
  absent or empty, and then the number returned is the placeholder \<open>-1\<close>. A file holding
  the decimal rendering of a Go \<open>int\<close> \<open>n\<close> gives \<open>n\<close> and no error; a non-empty file
  that is not a decimal numeral gives an error other than \<open>ErrProcessNotExited\<close>; a file
  that cannot be read gives the read error.
\<close>

theorem ExitStatus_cases:
  assumes f: "f = files s (now s) (Join (root p) ExitStatusFile)"
  shows "(snd (fst (ExitStatus p s)) = Some ErrProcessNotExited \<longleftrightarrow> f = Absent \<or> f = Contents []) \<and>
    (f = Absent \<or> f = Contents [] \<longrightarrow> fst (ExitStatus p s) = (- 1, Some ErrProcessNotExited)) \<and>
    (\<forall>n. - (2 ^ 63) \<le> n \<and> n < 2 ^ 63 \<and> f = Contents (itoa n) \<longrightarrow>
       fst (ExitStatus p s) = (n, None)) \<and>
    (\<forall>d. f = Contents d \<and> d \<noteq> [] \<and> \<not> is_decimal d \<longrightarrow>
       (\<exists>e. snd (fst (ExitStatus p s)) = Some e \<and> e \<noteq> ErrProcessNotExited)) \<and>
    (\<forall>msg. f = Unreadable msg \<longrightarrow> fst (ExitStatus p s) = (- 1, Some (ErrIO msg)))"
proof -
  have a: "f = Absent \<or> f = Contents [] \<Longrightarrow> fst (ExitStatus p s) = (- 1, Some ErrProcessNotExited)"
    by (auto simp: ExitStatus_fst f[symmetric])
  have u: "\<And>msg. f = Unreadable msg \<Longrightarrow> fst (ExitStatus p s) = (- 1, Some (ErrIO msg))"
    by (simp add: ExitStatus_fst f[symmetric])
  have c: "\<And>d. f = Contents d \<Longrightarrow> d \<noteq> [] \<Longrightarrow> fst (ExitStatus p s) = Atoi d"
    by (simp add: ExitStatus_fst f[symmetric])
  have ne: "snd (Atoi d) \<noteq> Some ErrProcessNotExited" for d
    using Atoi_errors[of d] by auto
  have iff: "snd (fst (ExitStatus p s)) = Some ErrProcessNotExited \<longleftrightarrow> f = Absent \<or> f = Contents []"
  proof (cases f)
    case Absent
    with a show ?thesis by simp
  next
    case (Unreadable msg)
    with u show ?thesis by simp
  next
    case (Contents d)
    with a c ne show ?thesis by (cases "d = []") auto
  qed
  have dec: "fst (ExitStatus p s) = (n, None)"
    if "- (2 ^ 63) \<le> n \<and> n < 2 ^ 63 \<and> f = Contents (itoa n)" for n
    using that c[of "itoa n"] itoa_nonempty[of n] Atoi_itoa[of n] by simp
  have bad: "\<exists>e. snd (fst (ExitStatus p s)) = Some e \<and> e \<noteq> ErrProcessNotExited"
    if "f = Contents d \<and> d \<noteq> [] \<and> \<not> is_decimal d" for d
  proof -
    from that have "fst (ExitStatus p s) = Atoi d" using c by simp
    moreover from that have "snd (Atoi d) \<noteq> None" using Atoi_not_decimal by simp
    ultimately show ?thesis using ne[of d] by auto
  qed
  show ?thesis
  proof (intro conjI allI impI)
    show "(snd (fst (ExitStatus p s)) = Some ErrProcessNotExited) = (f = Absent \<or> f = Contents [])"
      by (rule iff)
  qed (use a dec bad u in blast)+
qed

theorem ExitStatus_cases_witness:
  "fst (ExitStatus (fake_process None None) (fake_os running_1234 all_ok))
     = (- 1, Some ErrProcessNotExited) \<and>
   fst (ExitStatus (fake_process None None) (fake_os exited_137 all_ok)) = (137, None) \<and>
   fst (ExitStatus (fake_process None None) (fake_os garbled_status all_ok))
     = (0, Some (ErrSyntax ''abc''))"
proof -
  let ?p = "fake_process None None"
  have f1: "files (fake_os running_1234 all_ok) (now (fake_os running_1234 all_ok))
      (Join (root ?p) ExitStatusFile) = Absent"
    by (simp add: fake_os_def running_1234_def fake_process_def Join_def ExitStatusFile_def)
  have f2: "files (fake_os exited_137 all_ok) (now (fake_os exited_137 all_ok))
      (Join (root ?p) ExitStatusFile) = Contents (itoa 137)"
    by (simp add: fake_os_def exited_137_def fake_process_def Join_def ExitStatusFile_def
        itoa_def utoa_small utoa_big digit_char_table)
  have r1: "fst (ExitStatus ?p (fake_os running_1234 all_ok)) = (- 1, Some ErrProcessNotExited)"
    using ExitStatus_cases[OF refl, of ?p "fake_os running_1234 all_ok"] f1 by simp
  have r2: "fst (ExitStatus ?p (fake_os exited_137 all_ok)) = (137, None)"
    using ExitStatus_cases[OF refl, of ?p "fake_os exited_137 all_ok"] f2 by simp
  have r3: "fst (ExitStatus ?p (fake_os garbled_status all_ok)) = (0, Some (ErrSyntax ''abc''))"
    by (simp add: ExitStatus_def ReadFile_def fake_os_def garbled_status_def fake_process_def
        Join_def ExitStatusFile_def Atoi_abc)
  from r1 r2 r3 show ?thesis by blast
qed

text \<open>
  C7: \<open>loadProcess\<close> runs \<open>getPid\<close> on the fresh supervisor \<open>p0\<close>, then \<open>ExitStatus\<close>,
  then (only when the process has not exited) \<open>getExitPipe\<close>. If \<open>getPid\<close> fails, its
  error is the result. If the exit status is read, the supervisor is returned with no exit
  pipe and no descriptor was opened. If the status read says not-yet-exited, the result
  is the supervisor with the freshly opened exit pipe, or the error of opening it. Any
  other error of the status read is the result.
\<close>

theorem loadProcess_cases:
  assumes p0: "p0 = \<lparr>root = root_dir, id' = ident, pid = 0, exitPipe = None, controlPipe = None,
               container = c, spec = ps_Process st,
               stdio = \<lparr>Stdin = ps_Stdin st, Stdout = ps_Stdout st, Stderr = ps_Stderr st\<rparr>\<rparr>"
    and gp: "getPid p0 s = ((v, e1), p1, s1)"
    and es: "ExitStatus p1 s1 = ((x, e2), s2)"
    and ep: "getExitPipe (Join root_dir ExitFile) s2 = (r3, s3)"
  shows "(\<forall>err. e1 = Some err \<longrightarrow>
            loadProcess root_dir ident c st s = (Inl err, s1) \<and> open_fds s1 = open_fds s) \<and>
    (e1 = None \<and> e2 = None \<longrightarrow>
       loadProcess root_dir ident c st s = (Inr p1, s2) \<and> pid p1 = v \<and>
       exitPipe p1 = None \<and> open_fds s2 = open_fds s) \<and>
    (\<forall>fd. e1 = None \<and> e2 = Some ErrProcessNotExited \<and> r3 = Inr fd \<longrightarrow>
       loadProcess root_dir ident c st s = (Inr (p1\<lparr>exitPipe := Some fd\<rparr>), s3) \<and> pid p1 = v \<and>
       open_fds s3 = insert fd (open_fds s)) \<and>
    (\<forall>err. e1 = None \<and> e2 = Some ErrProcessNotExited \<and> r3 = Inl err \<longrightarrow>
       loadProcess root_dir ident c st s = (Inl err, s3) \<and> open_fds s3 = open_fds s) \<and>
    (\<forall>err. e1 = None \<and> e2 = Some err \<and> err \<noteq> ErrProcessNotExited \<longrightarrow>
       loadProcess root_dir ident c st s = (Inl err, s2) \<and> open_fds s2 = open_fds s)"
proof -
  note f1 = getPid_frame[OF gp]
  have s2: "s2 = s1\<lparr>events := events s1 @ [EvRead (Join (root p1) ExitStatusFile)]\<rparr>"
    using ExitStatus_frame[of p1 s1] es by simp
  have o1: "open_fds s1 = open_fds s" and o2: "open_fds s2 = open_fds s"
    and n2: "next_fd s2 = next_fd s"
    using f1 s2 by simp_all
  have e0: "exitPipe p1 = None" using f1 p0 by simp
  have pv: "e1 = None \<Longrightarrow> pid p1 = v" using f1 by simp
  have a: "loadProcess root_dir ident c st s = (Inl err, s1)" if "e1 = Some err" for err
    using that gp by (simp add: loadProcess_def p0[symmetric])
  have b: "loadProcess root_dir ident c st s = (Inr p1, s2)" if "e1 = None \<and> e2 = None"
    using that gp es by (simp add: loadProcess_def p0[symmetric])
  have c3: "loadProcess root_dir ident c st s = (Inr (p1\<lparr>exitPipe := Some fd\<rparr>), s3)"
    if "e1 = None \<and> e2 = Some ErrProcessNotExited \<and> r3 = Inr fd" for fd
    using that gp es ep by (simp add: loadProcess_def p0[symmetric])
  have c4: "loadProcess root_dir ident c st s = (Inl err, s3)"
    if "e1 = None \<and> e2 = Some ErrProcessNotExited \<and> r3 = Inl err" for err
    using that gp es ep by (simp add: loadProcess_def p0[symmetric])
  have d: "loadProcess root_dir ident c st s = (Inl err, s2)"
    if "e1 = None \<and> e2 = Some err \<and> err \<noteq> ErrProcessNotExited" for err
    using that gp es by (simp add: loadProcess_def p0[symmetric])
  have o3: "open_fds s3 = insert fd (open_fds s)" if "r3 = Inr fd" for fd
    using that ep o2 by (auto simp: getExitPipe_def open_fd_def split: option.splits)
  have o3': "open_fds s3 = open_fds s" if "r3 = Inl err" for err
    using that ep o2 by (auto simp: getExitPipe_def open_fd_def split: option.splits)
  show ?thesis
    using a b c3 c4 d o1 o2 o3 o3' e0 pv by blast
qed

theorem loadProcess_cases_witness:
  "fst (loadProcess ''/run/p'' ''init'' () fake_state (fake_os running_1234 all_ok))
     = Inr ((fake_process (Some 3) None)\<lparr>pid := 1234\<rparr>) \<and>
   open_fds (snd (loadProcess ''/run/p'' ''init'' () fake_state (fake_os running_1234 all_ok)))
     = {3} \<and>
   fst (loadProcess ''/run/p'' ''init'' () fake_state (fake_os exited_137 all_ok))
     = Inr ((fake_process None None)\<lparr>pid := 1234\<rparr>) \<and>
   open_fds (snd (loadProcess ''/run/p'' ''init'' () fake_state (fake_os exited_137 all_ok)))
     = {} \<and>
   fst (loadProcess ''/run/p'' ''init'' () fake_state
          (fake_os running_1234 (no_pipe ''/run/p/exit'')))
     = Inl (ErrIO ''too many open files'') \<and>
   fst (loadProcess ''/run/p'' ''init'' () fake_state (fake_os garbled_status all_ok))
     = Inl (ErrSyntax ''abc'') \<and>
   fst (loadProcess ''/run/p'' ''init'' () fake_state (fake_os unreadable_pid all_ok))
     = Inl (ErrIO ''permission denied'')"
proof -
  let ?p0 = "fake_process None None"
  let ?p1 = "?p0\<lparr>pid := 1234\<rparr>"
  have p0: "?p0 = \<lparr>root = ''/run/p'', id' = ''init'', pid = 0, exitPipe = None,
      controlPipe = None, container = (), spec = ps_Process fake_state,
      stdio = \<lparr>Stdin = ps_Stdin fake_state, Stdout = ps_Stdout fake_state,
                Stderr = ps_Stderr fake_state\<rparr>\<rparr>"
    by (simp add: fake_process_def fake_state_def)
  have run: "running_1234 0 ''/run/p/pid'' = Contents ''1234''"
    and exi: "exited_137 0 ''/run/p/pid'' = Contents ''1234''"
    and gar: "garbled_status 0 ''/run/p/pid'' = Contents ''1234''"
    by (simp_all add: running_1234_def exited_137_def garbled_status_def)
  have path: "Join (root ?p0) ExitStatusFile = ''/run/p/exitStatus''"
    "Join ''/run/p'' ExitFile = ''/run/p/exit''"
    by (simp_all add: fake_process_def Join_def ExitStatusFile_def ExitFile_def)
  \<comment> \<open>the process runs, the exit pipe opens\<close>
  let ?a1 = "(fake_os running_1234 all_ok)\<lparr>events := [EvRead ''/run/p/pid'']\<rparr>"
  let ?a2 = "(fake_os running_1234 all_ok)
      \<lparr>events := [EvRead ''/run/p/pid'', EvRead ''/run/p/exitStatus'']\<rparr>"
  let ?a3 = "?a2\<lparr>open_fds := {3}, next_fd := 4\<rparr>"
  have a_es: "ExitStatus ?p1 ?a1 = ((- 1, Some ErrProcessNotExited), ?a2)"
    by (simp add: ExitStatus_def ReadFile_def path fake_os_def running_1234_def)
  have a_ep: "getExitPipe (Join ''/run/p'' ExitFile) ?a2 = (Inr 3, ?a3)"
    by (simp add: getExitPipe_def open_fd_def path fake_os_def all_ok_def)
  from loadProcess_cases[OF p0 getPid_running[of running_1234 all_ok, OF run] a_es a_ep]
  have a: "loadProcess ''/run/p'' ''init'' () fake_state (fake_os running_1234 all_ok)
      = (Inr (?p1\<lparr>exitPipe := Some 3\<rparr>), ?a3)"
    by simp
  \<comment> \<open>the process has exited\<close>
  let ?b1 = "(fake_os exited_137 all_ok)\<lparr>events := [EvRead ''/run/p/pid'']\<rparr>"
  let ?b2 = "(fake_os exited_137 all_ok)
      \<lparr>events := [EvRead ''/run/p/pid'', EvRead ''/run/p/exitStatus'']\<rparr>"
  have b_es: "ExitStatus ?p1 ?b1 = ((137, None), ?b2)"
    by (simp add: ExitStatus_def ReadFile_def path fake_os_def exited_137_def Atoi_137)
  obtain r3 s3 where b_ep: "getExitPipe (Join ''/run/p'' ExitFile) ?b2 = (r3, s3)"
    by (cases "getExitPipe (Join ''/run/p'' ExitFile) ?b2")
  from loadProcess_cases[OF p0 getPid_running[of exited_137 all_ok, OF exi] b_es b_ep]
  have b: "loadProcess ''/run/p'' ''init'' () fake_state (fake_os exited_137 all_ok)
      = (Inr ?p1, ?b2)"
    by simp
  \<comment> \<open>the process runs, the exit pipe cannot be opened\<close>
  let ?bad = "no_pipe ''/run/p/exit''"
  let ?c1 = "(fake_os running_1234 ?bad)\<lparr>events := [EvRead ''/run/p/pid'']\<rparr>"
  let ?c2 = "(fake_os running_1234 ?bad)
      \<lparr>events := [EvRead ''/run/p/pid'', EvRead ''/run/p/exitStatus'']\<rparr>"
  have c_es: "ExitStatus ?p1 ?c1 = ((- 1, Some ErrProcessNotExited), ?c2)"
    by (simp add: ExitStatus_def ReadFile_def path fake_os_def running_1234_def)
  have c_ep: "getExitPipe (Join ''/run/p'' ExitFile) ?c2
      = (Inl (ErrIO ''too many open files''), ?c2)"
    by (simp add: getExitPipe_def open_fd_def path fake_os_def no_pipe_def)
  from loadProcess_cases[OF p0 getPid_running[of running_1234 "no_pipe ''/run/p/exit''", OF run] c_es c_ep]
  have c: "fst (loadProcess ''/run/p'' ''init'' () fake_state (fake_os running_1234 ?bad))
      = Inl (ErrIO ''too many open files'')"
    by simp
  \<comment> \<open>the exit-status file holds no number\<close>
  let ?d1 = "(fake_os garbled_status all_ok)\<lparr>events := [EvRead ''/run/p/pid'']\<rparr>"
  let ?d2 = "(fake_os garbled_status all_ok)
      \<lparr>events := [EvRead ''/run/p/pid'', EvRead ''/run/p/exitStatus'']\<rparr>"
  have d_es: "ExitStatus ?p1 ?d1 = ((0, Some (ErrSyntax ''abc'')), ?d2)"
    by (simp add: ExitStatus_def ReadFile_def path fake_os_def garbled_status_def Atoi_abc)
  obtain r3' s3' where d_ep: "getExitPipe (Join ''/run/p'' ExitFile) ?d2 = (r3', s3')"
    by (cases "getExitPipe (Join ''/run/p'' ExitFile) ?d2")
  from loadProcess_cases[OF p0 getPid_running[of garbled_status all_ok, OF gar] d_es d_ep]
  have d: "fst (loadProcess ''/run/p'' ''init'' () fake_state (fake_os garbled_status all_ok))
      = Inl (ErrSyntax ''abc'')"
    by simp
  \<comment> \<open>the pid file cannot be read\<close>
  have e: "fst (loadProcess ''/run/p'' ''init'' () fake_state (fake_os unreadable_pid all_ok))
     = Inl (ErrIO ''permission denied'')"
    by (simp add: loadProcess_def getPid_def getPid_loop.simps ReadFile_def fake_os_def
        unreadable_pid_def Join_def)
  have pa: "?p1\<lparr>exitPipe := Some 3\<rparr> = (fake_process (Some 3) None)\<lparr>pid := 1234\<rparr>"
    by (simp add: fake_process_def)
  from a b c d e pa show ?thesis
    by (simp add: fake_os_def)
qed

text \<open>
  C9: on a supervisor whose control pipe is open and accepts the write, \<open>Resize w h\<close>
  appends exactly \<open>1 \<close>, the decimal \<open>w\<close>, a space, the decimal \<open>h\<close> and a newline to the
  pipe, and \<open>CloseStdin\<close> appends exactly \<open>0 0 0\<close> and a newline; both return no error.
  Otherwise both return an error and write nothing. \<open>Resize 80 24\<close> writes \<open>1 80 24\<close> and
  a newline.
\<close>

theorem control_protocol:
  "(controlPipe p = Some fd \<and> fd \<in> open_fds s \<and> fails s (SysWrite fd) = None \<longrightarrow>
      Resize w h p s =
        (None, s\<lparr>written := (written s)
                 (fd := written s fd @ ''1 '' @ itoa w @ '' '' @ itoa h @ [CHR 0x0A])\<rparr>) \<and>
      CloseStdin p s =
        (None, s\<lparr>written := (written s)(fd := written s fd @ ''0 0 0'' @ [CHR 0x0A])\<rparr>)) \<and>
   (\<not> (\<exists>fd. controlPipe p = Some fd \<and> fd \<in> open_fds s \<and> fails s (SysWrite fd) = None) \<longrightarrow>
      fst (Resize w h p s) \<noteq> None \<and> snd (Resize w h p s) = s \<and>
      fst (CloseStdin p s) \<noteq> None \<and> snd (CloseStdin p s) = s)"
  by (auto simp: Resize_def CloseStdin_def file_Write_def itoa_0 itoa_1 split: option.splits)

theorem control_protocol_witness:
  "written (snd (Resize 80 24 (fake_process (Some 4) (Some 5))
      ((fake_os no_files all_ok)\<lparr>open_fds := {4, 5}\<rparr>))) 5 = ''1 80 24'' @ [CHR 0x0A] \<and>
   written (snd (CloseStdin (fake_process (Some 4) (Some 5))
      ((fake_os no_files all_ok)\<lparr>open_fds := {4, 5}\<rparr>))) 5 = ''0 0 0'' @ [CHR 0x0A] \<and>
   fst (Resize 80 24 (fake_process (Some 4) None) ((fake_os no_files all_ok)\<lparr>open_fds := {4}\<rparr>))
     = Some (ErrIO ''invalid argument'')"
proof -
  let ?p = "fake_process (Some 4) (Some 5)"
  let ?s = "(fake_os no_files all_ok)\<lparr>open_fds := {4, 5}\<rparr>"
  have h: "controlPipe ?p = Some 5 \<and> 5 \<in> open_fds ?s \<and> fails ?s (SysWrite 5) = None"
    by (simp add: fake_process_def fake_os_def all_ok_def)
  have i: "itoa 80 = ''80''" "itoa 24 = ''24''"
    by (simp_all add: itoa_def utoa_small utoa_big digit_char_table)
  have n: "fst (Resize 80 24 (fake_process (Some 4) None) ((fake_os no_files all_ok)\<lparr>open_fds := {4}\<rparr>))
     = Some (ErrIO ''invalid argument'')"
    by (simp add: Resize_def file_Write_def fake_process_def)
  from control_protocol[of ?p 5 ?s 80 24] h i n show ?thesis
    by (simp add: fake_os_def)
qed

end
